theory Spec2Isabelle
  imports Complex_Main
begin

section \<open>Python values and strings\<close>

text \<open>
  The harness is Python. Its texts are modelled as \<^typ>\<open>string\<close> over the ASCII
  characters: case mapping, whitespace and word characters are those Python gives to
  code points below 128, and a character outside that range has no case, is no
  whitespace and is no word character here. Values that come out of a JSON document
  are modelled by \<open>pyval\<close>; a float carries its real value and the text Python prints
  for it, which the model does not compute. A dict is the list of its items in
  insertion order, read through \<^const>\<open>map_of\<close>.
\<close>

definition is_space :: "char \<Rightarrow> bool" where
  "is_space c = (let n = (of_char c :: nat) in (9 \<le> n \<and> n \<le> 13) \<or> (28 \<le> n \<and> n \<le> 32))"

definition is_upper :: "char \<Rightarrow> bool" where
  "is_upper c = (let n = (of_char c :: nat) in 65 \<le> n \<and> n \<le> 90)"

definition is_lower :: "char \<Rightarrow> bool" where
  "is_lower c = (let n = (of_char c :: nat) in 97 \<le> n \<and> n \<le> 122)"

definition is_digit :: "char \<Rightarrow> bool" where
  "is_digit c = (let n = (of_char c :: nat) in 48 \<le> n \<and> n \<le> 57)"

definition is_word_char :: "char \<Rightarrow> bool" where
  "is_word_char c = (is_upper c \<or> is_lower c \<or> is_digit c \<or> c = CHR ''_'')"

definition lower_char :: "char \<Rightarrow> char" where
  "lower_char c = (if is_upper c then char_of ((of_char c :: nat) + 32) else c)"

definition upper_char :: "char \<Rightarrow> char" where
  "upper_char c = (if is_lower c then char_of ((of_char c :: nat) - 32) else c)"

definition py_lower :: "string \<Rightarrow> string" where
  "py_lower s = map lower_char s"

definition py_upper :: "string \<Rightarrow> string" where
  "py_upper s = map upper_char s"

definition py_strip :: "string \<Rightarrow> string" where
  "py_strip s = rev (dropWhile is_space (rev (dropWhile is_space s)))"

fun starts_with :: "string \<Rightarrow> string \<Rightarrow> bool" where
  "starts_with [] s = True"
| "starts_with (p # ps) [] = False"
| "starts_with (p # ps) (c # cs) = (p = c \<and> starts_with ps cs)"

text \<open>Python's \<open>sub in s\<close> on strings.\<close>

fun contains :: "string \<Rightarrow> string \<Rightarrow> bool" where
  "contains sub [] = (sub = [])"
| "contains sub (c # cs) = (if starts_with sub (c # cs) then True else contains sub cs)"

definition ends_with :: "string \<Rightarrow> string \<Rightarrow> bool" where
  "ends_with suf s = starts_with (rev suf) (rev s)"

datatype pyval =
    PNone
  | PBool bool
  | PInt int
  | PFloat real string
  | PStr string
  | PList "pyval list"
  | PDict "(string \<times> pyval) list"

type_synonym pydict = "(string \<times> pyval) list"

text \<open>\<open>d.get(k)\<close> and \<open>d.get(k, default)\<close>.\<close>

definition dict_get :: "pydict \<Rightarrow> string \<Rightarrow> pyval" where
  "dict_get d k = (case map_of d k of None \<Rightarrow> PNone | Some v \<Rightarrow> v)"

definition dict_get_default :: "pydict \<Rightarrow> string \<Rightarrow> pyval \<Rightarrow> pyval" where
  "dict_get_default d k dflt = (case map_of d k of None \<Rightarrow> dflt | Some v \<Rightarrow> v)"

definition has_key :: "pydict \<Rightarrow> string \<Rightarrow> bool" where
  "has_key d k = (map_of d k \<noteq> None)"

text \<open>\<open>d[k] = v\<close>: an existing key keeps its place, a new key goes to the end.\<close>

fun dict_set :: "string \<Rightarrow> pyval \<Rightarrow> pydict \<Rightarrow> pydict" where
  "dict_set k v [] = [(k, v)]"
| "dict_set k v (p # ps) = (if fst p = k then (k, v) # ps else p # dict_set k v ps)"

fun dec_nat :: "nat \<Rightarrow> string" where
  "dec_nat n = (if n < 10 then [char_of (48 + n)] else dec_nat (n div 10) @ [char_of (48 + n mod 10)])"

declare dec_nat.simps [simp del]

definition hex_digit :: "nat \<Rightarrow> char" where
  "hex_digit n = (if n < 10 then char_of (48 + n) else char_of (87 + n))"

text \<open>\<open>repr\<close> of a string: the quote is chosen and the text escaped as CPython does.\<close>

definition repr_char :: "char \<Rightarrow> char \<Rightarrow> string" where
  "repr_char q c =
    (let n = (of_char c :: nat) in
     if c = q \<or> n = 92 then [char_of (92 :: nat), c]
     else if n = 9 then [char_of (92 :: nat), CHR ''t'']
     else if n = 10 then [char_of (92 :: nat), CHR ''n'']
     else if n = 13 then [char_of (92 :: nat), CHR ''r'']
     else if n < 32 \<or> n = 127 then [char_of (92 :: nat), CHR ''x'', hex_digit (n div 16), hex_digit (n mod 16)]
     else [c])"

definition repr_str :: "string \<Rightarrow> string" where
  "repr_str s =
    (let q = (if char_of (39 :: nat) \<in> set s \<and> char_of (34 :: nat) \<notin> set s
              then char_of (34 :: nat) else char_of (39 :: nat))
     in q # concat (map (repr_char q) s) @ [q])"

fun join :: "string \<Rightarrow> string list \<Rightarrow> string" where
  "join sep [] = []"
| "join sep [x] = x"
| "join sep (x # y # ys) = x @ sep @ join sep (y # ys)"

fun py_repr :: "pyval \<Rightarrow> string" where
  "py_repr PNone = ''None''"
| "py_repr (PBool b) = (if b then ''True'' else ''False'')"
| "py_repr (PInt i) = (if i < 0 then CHR ''-'' # dec_nat (nat (- i)) else dec_nat (nat i))"
| "py_repr (PFloat r s) = s"
| "py_repr (PStr s) = repr_str s"
| "py_repr (PList xs) = ''['' @ join '', '' (map py_repr xs) @ '']''"
| "py_repr (PDict kvs) =
     ''{'' @ join '', '' (map (\<lambda>kv. repr_str (fst kv) @ '': '' @ py_repr (snd kv)) kvs) @ ''}''"

text \<open>\<open>str(v)\<close>.\<close>

definition py_str :: "pyval \<Rightarrow> string" where
  "py_str v = (case v of PStr s \<Rightarrow> s | _ \<Rightarrow> py_repr v)"

text \<open>
  Exceptions are values. CPython refuses to turn an integer of more than 4300 decimal
  digits (the default of \<open>sys.int_max_str_digits\<close>) into text: \<open>str\<close> and \<open>repr\<close>
  raise \<open>ValueError\<close> on such an integer, also when it sits inside a list or a dict.
  \<open>py_str\<close> is the text of a value that has one; \<open>py_str_checked\<close> is \<open>str\<close> with the
  exception.
\<close>

datatype py_error = AttributeError | IndexError | ValueError | RecursionError

definition int_max_str_digits :: nat where
  "int_max_str_digits = 4300"

fun has_huge_int :: "pyval \<Rightarrow> bool" where
  "has_huge_int (PInt i) = (\<bar>i\<bar> \<ge> 10 ^ int_max_str_digits)"
| "has_huge_int (PList xs) = list_ex has_huge_int xs"
| "has_huge_int (PDict kvs) = list_ex (\<lambda>kv. has_huge_int (snd kv)) kvs"
| "has_huge_int PNone = False"
| "has_huge_int (PBool b) = False"
| "has_huge_int (PFloat r s) = False"
| "has_huge_int (PStr s) = False"

definition py_str_checked :: "pyval \<Rightarrow> py_error + string" where
  "py_str_checked v =
    (case v of
       PStr s \<Rightarrow> Inr s
     | _ \<Rightarrow> if has_huge_int v then Inl ValueError else Inr (py_repr v))"

text \<open>\<open>bool(v)\<close>.\<close>

definition py_truth :: "pyval \<Rightarrow> bool" where
  "py_truth v =
    (case v of PNone \<Rightarrow> False | PBool b \<Rightarrow> b | PInt i \<Rightarrow> i \<noteq> 0 | PFloat r s \<Rightarrow> r \<noteq> 0
     | PStr s \<Rightarrow> s \<noteq> [] | PList xs \<Rightarrow> xs \<noteq> [] | PDict kvs \<Rightarrow> kvs \<noteq> [])"

text \<open>The loop every module calls \<open>_dedupe\<close>: first occurrences, in order.\<close>

fun dedupe_from :: "string list \<Rightarrow> string list \<Rightarrow> string list" where
  "dedupe_from seen [] = []"
| "dedupe_from seen (x # xs) =
     (if x \<in> set seen then dedupe_from seen xs else x # dedupe_from (x # seen) xs)"

definition dedupe :: "string list \<Rightarrow> string list" where
  "dedupe xs = dedupe_from [] xs"

section \<open>Regular expressions\<close>

text \<open>
  The patterns of the harness use literals, character classes, alternation, the word
  boundary \<open>\b\<close>, repetition of a class and bounded repetition of a group. The harness
  only asks whether \<open>search\<close> finds a match, so a matcher that returns every way of
  matching decides the same question as the backtracking one. A matcher state is the
  character before the current position and the text from the position on.
\<close>

datatype regex =
    Lit string
  | ClsRep "char \<Rightarrow> bool" nat "nat option"
  | Bnd
  | Seq regex regex
  | Alts "regex list"
  | Rep nat nat regex

type_synonym rstate = "char option \<times> string"

definition fold_case :: "bool \<Rightarrow> char \<Rightarrow> char" where
  "fold_case ic c = (if ic then lower_char c else c)"

definition cls_ok :: "bool \<Rightarrow> (char \<Rightarrow> bool) \<Rightarrow> char \<Rightarrow> bool" where
  "cls_ok ic P c = (P c \<or> (ic \<and> (P (lower_char c) \<or> P (upper_char c))))"

fun lit_match :: "bool \<Rightarrow> string \<Rightarrow> char option \<Rightarrow> string \<Rightarrow> rstate list" where
  "lit_match ic [] prev rest = [(prev, rest)]"
| "lit_match ic (p # ps) prev [] = []"
| "lit_match ic (p # ps) prev (c # cs) =
     (if fold_case ic p = fold_case ic c then lit_match ic ps (Some c) cs else [])"

fun cls_run :: "bool \<Rightarrow> (char \<Rightarrow> bool) \<Rightarrow> nat \<Rightarrow> nat option \<Rightarrow> char option \<Rightarrow> string \<Rightarrow> rstate list" where
  "cls_run ic P lo hi prev [] = (if lo = 0 then [(prev, [])] else [])"
| "cls_run ic P lo hi prev (c # cs) =
     (if lo = 0 then [(prev, c # cs)] else []) @
     (if hi = Some 0 \<or> \<not> cls_ok ic P c then []
      else cls_run ic P (lo - 1) (map_option (\<lambda>h. h - 1) hi) (Some c) cs)"

definition at_boundary :: "rstate \<Rightarrow> bool" where
  "at_boundary st =
    ((case fst st of None \<Rightarrow> False | Some c \<Rightarrow> is_word_char c) \<noteq>
     (case snd st of [] \<Rightarrow> False | c # cs \<Rightarrow> is_word_char c))"

fun rep_n :: "(rstate \<Rightarrow> rstate list) \<Rightarrow> nat \<Rightarrow> nat \<Rightarrow> rstate \<Rightarrow> rstate list" where
  "rep_n f lo 0 st = (if lo = 0 then [st] else [])"
| "rep_n f lo (Suc hi) st =
     (if lo = 0 then [st] else []) @ concat (map (rep_n f (lo - 1) hi) (f st))"

primrec rmatch :: "bool \<Rightarrow> regex \<Rightarrow> rstate \<Rightarrow> rstate list" where
  "rmatch ic (Lit cs) st = lit_match ic cs (fst st) (snd st)"
| "rmatch ic (ClsRep P lo hi) st = cls_run ic P lo hi (fst st) (snd st)"
| "rmatch ic Bnd st = (if at_boundary st then [st] else [])"
| "rmatch ic (Seq r1 r2) st = concat (map (rmatch ic r2) (rmatch ic r1 st))"
| "rmatch ic (Alts rs) st = concat (map (\<lambda>r. rmatch ic r st) rs)"
| "rmatch ic (Rep lo hi r) st = rep_n (rmatch ic r) lo hi st"

fun search_from :: "bool \<Rightarrow> regex \<Rightarrow> char option \<Rightarrow> string \<Rightarrow> bool" where
  "search_from ic r prev [] = (rmatch ic r (prev, []) \<noteq> [])"
| "search_from ic r prev (c # cs) =
     (if rmatch ic r (prev, c # cs) \<noteq> [] then True else search_from ic r (Some c) cs)"

text \<open>\<open>bool(pattern.search(s))\<close>; \<open>ic\<close> is \<open>re.IGNORECASE\<close>.\<close>

definition search :: "bool \<Rightarrow> regex \<Rightarrow> string \<Rightarrow> bool" where
  "search ic r s = search_from ic r None s"

definition cls :: "(char \<Rightarrow> bool) \<Rightarrow> regex" where
  "cls P = ClsRep P 1 (Some 1)"

definition star :: "(char \<Rightarrow> bool) \<Rightarrow> regex" where
  "star P = ClsRep P 0 None"

definition plus :: "(char \<Rightarrow> bool) \<Rightarrow> regex" where
  "plus P = ClsRep P 1 None"

definition dot :: "char \<Rightarrow> bool" where
  "dot c = (c \<noteq> char_of (10 :: nat))"

definition one_of :: "string list \<Rightarrow> regex" where
  "one_of ws = Alts (map Lit ws)"

text \<open>\<open>\b(w1|w2|...)\b\<close>, the shape of most patterns.\<close>

definition words :: "string list \<Rightarrow> regex" where
  "words ws = Seq Bnd (Seq (one_of ws) Bnd)"

fun seqs :: "regex list \<Rightarrow> regex" where
  "seqs [] = Lit []"
| "seqs [r] = r"
| "seqs (r # r' # rs) = Seq r (seqs (r' # rs))"

section \<open>Allowed values and category synonyms (eval/normalize.py)\<close>

definition ALLOWED_CATEGORIES :: "string list" where
  "ALLOWED_CATEGORIES =
    [''VPN'', ''Email'', ''Access'', ''Laptop'', ''Network'', ''Printer'', ''Software'',
     ''Security'', ''Hardware'']"

definition ALLOWED_DEVICES :: "string list" where
  "ALLOWED_DEVICES = [''Windows'', ''Mac'', ''iPhone'', ''Android'', ''Unknown'']"

definition ALLOWED_PRIORITIES :: "string list" where
  "ALLOWED_PRIORITIES = [''P1'', ''P2'', ''P3'', ''P4'']"

section \<open>The patterns of the rule engine (eval/rules.py)\<close>

definition EMAIL_CHARS :: "char \<Rightarrow> bool" where
  "EMAIL_CHARS c = (is_lower c \<or> is_upper c \<or> is_digit c \<or> c \<in> set ''._%+-'')"

definition DOMAIN_CHARS :: "char \<Rightarrow> bool" where
  "DOMAIN_CHARS c = (is_lower c \<or> is_upper c \<or> is_digit c \<or> c \<in> set ''.-'')"

definition is_alpha :: "char \<Rightarrow> bool" where
  "is_alpha c = (is_upper c \<or> is_lower c)"

definition EMAIL_RE :: regex where
  "EMAIL_RE = seqs [Bnd, plus EMAIL_CHARS, Lit ''@'', plus DOMAIN_CHARS, Lit ''.'',
                    ClsRep is_alpha 2 None, Bnd]"

definition USERNAME_RE :: regex where
  "USERNAME_RE = words [''username'', ''user id'', ''userid'', ''user:'']"

definition DEVICE_WORD_RE :: regex where
  "DEVICE_WORD_RE = words [''windows'', ''mac'', ''macbook'', ''iphone'', ''ios'', ''android'', ''linux'']"

definition LOGIN_WORD_RE :: regex where
  "LOGIN_WORD_RE = words [''login'', ''log in'', ''signin'', ''sign in'', ''password'']"

definition PRINTER_ID_RE :: regex where
  "PRINTER_ID_RE =
    seqs [Bnd,
          Alts [seqs [Lit ''printer'', star is_space, one_of [''id'', ''model'', ''number'', ''#'']],
                seqs [ClsRep is_upper 1 (Some 4), Lit ''-'', ClsRep is_digit 2 (Some 5)]],
          Bnd]"

definition TEAM_RE :: regex where
  "TEAM_RE = words [''team'', ''department'', ''org'', ''organization'']"

definition ACCESS_LEVEL_RE :: regex where
  "ACCESS_LEVEL_RE =
    words [''admin'', ''read'', ''write'', ''viewer'', ''editor'', ''owner'', ''role'', ''access level'']"

definition NAME_HINT_RE :: regex where
  "NAME_HINT_RE =
    seqs [Bnd,
          Alts [Lit ''name:'',
                seqs [Lit ''for '', cls is_upper, plus is_lower,
                      Rep 0 1 (seqs [Lit '' '', cls is_upper, plus is_lower])]]]"

definition URGENCY_RE :: regex where
  "URGENCY_RE = words [''urgent'', ''asap'', ''immediately'', ''critical'', ''sev1'', ''priority'']"

definition DEADLINE_RE :: regex where
  "DEADLINE_RE =
    words [''deadline'', ''due'', ''by'', ''before'', ''today'', ''tomorrow'', ''this week'', ''eod'',
           ''end of day'', ''monday'']"

definition TIME_HINT_RE :: regex where
  "TIME_HINT_RE =
    seqs [Bnd,
          Alts (map Lit [''since'', ''started'', ''start'', ''today'', ''yesterday'', ''this morning'',
                         ''last night'', ''next month'']
                @ [seqs [ClsRep is_digit 1 (Some 2), Lit '':'', ClsRep is_digit 2 (Some 2)]]),
          Bnd]"

definition LOCATION_HINT_RE :: regex where
  "LOCATION_HINT_RE =
    words [''home'', ''office'', ''floor'', ''room'', ''building'', ''site'', ''remote'', ''location'']"

definition ERROR_HINT_RE :: regex where
  "ERROR_HINT_RE =
    words [''error'', ''code'', ''failed'', ''denied'', ''incorrect'', ''timeout'', ''screenshot'']"

definition SECURITY_OVERRIDE_RE :: regex where
  "SECURITY_OVERRIDE_RE =
    words [''phishing'', ''malware'', ''ransomware'', ''compromised'', ''suspicious link'',
           ''credential theft'', ''unauthorized'', ''breach'', ''confidential'', ''data leak'',
           ''lost phone'', ''lost device'', ''wrong external email'']"

definition ACCESS_OVERRIDE_RE :: regex where
  "ACCESS_OVERRIDE_RE =
    words [''access'', ''permission'', ''role'', ''account'', ''provisioning'', ''onboarding'',
           ''new employee'', ''joiner'', ''leaver'', ''grant access'', ''provide access'',
           ''requesting access'', ''access to'', ''jira'', ''confluence'', ''okta'', ''sso'',
           ''sap system'', ''vpn access'']"

definition ACCESS_STRONG_RE :: regex where
  "ACCESS_STRONG_RE =
    words [''access denied'', ''permission denied'', ''account locked'', ''onboarding'',
           ''new employee'', ''joiner'', ''jira'', ''confluence'', ''okta'', ''sso'', ''hr portal'',
           ''sap'', ''provisioning'', ''role'']"

definition PRINTER_OVERRIDE_RE :: regex where
  "PRINTER_OVERRIDE_RE = words [''printer'', ''print queue'', ''toner'', ''paper jam'', ''spooler'']"

definition APP_NAME_RE :: regex where
  "APP_NAME_RE =
    words [''teams'', ''slack'', ''zoom'', ''outlook'', ''chrome'', ''edge'', ''onedrive'', ''sharepoint'']"

definition SOFTWARE_SYMPTOM_RE :: regex where
  "SOFTWARE_SYMPTOM_RE =
    words [''stuck loading'', ''loading screen'', ''crash'', ''not opening'', ''not working'',
           ''freezing'', ''won'' @ [char_of (39 :: nat)] @ ''t start'', ''wont start'', ''spinning'',
           ''hangs'']"

definition STRONG_OUTAGE_RE :: regex where
  "STRONG_OUTAGE_RE =
    words [''wifi is down'', ''wifi down'', ''wi-fi is down'', ''wi-fi down'', ''wireless is down'',
           ''no internet'', ''internet down'', ''can'' @ [char_of (39 :: nat)] @ ''t connect'',
           ''cannot connect'', ''unable to connect'', ''network outage'', ''outage'']"

definition ERROR_CODE_RE :: regex where
  "ERROR_CODE_RE = seqs [Lit ''error'', star is_space, one_of [''809'', ''720'', ''691'']]"

definition VPN_OVERRIDE_RE :: regex where
  "VPN_OVERRIDE_RE =
    seqs [Bnd, Alts [Lit ''vpn'', Lit ''anyconnect'', Lit ''pulse secure'', ERROR_CODE_RE], Bnd]"

definition OUTAGE_MULTI_RE :: regex where
  "OUTAGE_MULTI_RE =
    words [''outage affecting multiple users'', ''affecting multiple users'', ''whole floor'',
           ''entire floor'', ''whole office'']"

definition NETWORK_TERM_RE :: regex where
  "NETWORK_TERM_RE =
    words [''wifi'', ''wi-fi'', ''wireless'', ''internet'', ''network'', ''connect'', ''connection'']"

definition NETWORK_PERF_RE :: regex where
  "NETWORK_PERF_RE =
    words [''slow internet'', ''internet is very slow'', ''network is slow'', ''times out'', ''timeout'']"

definition PRINT_TO_PDF_RE :: regex where
  "PRINT_TO_PDF_RE = words [''print to pdf'', ''pdf'']"

definition HARDWARE_REQUEST_RE :: regex where
  "HARDWARE_REQUEST_RE = words [''new laptop'', ''monitor'', ''keyboard'', ''mouse'', ''dock'']"

definition PHYSICAL_REPLACEMENT_RE :: regex where
  "PHYSICAL_REPLACEMENT_RE =
    words [''replace'', ''replacement'', ''new laptop'', ''new monitor'', ''new keyboard'']"

definition LOST_DEVICE_RE :: regex where
  "LOST_DEVICE_RE =
    seqs [Bnd,
          Alts [seqs [Lit ''lost'', Rep 0 2 (Seq (plus is_space) (plus is_word_char)),
                      plus is_space, one_of [''phone'', ''device'']],
                Lit ''lost phone'', Lit ''lost device'', Lit ''stolen'', Lit ''missing phone'',
                Lit ''device stolen''],
          Bnd]"

definition CORP_ACCESS_RE :: regex where
  "CORP_ACCESS_RE =
    words [''company email'', ''corporate email'', ''work email'', ''company access'',
           ''corporate access'']"

definition LAPTOP_FAILURE_RE :: regex where
  "LAPTOP_FAILURE_RE =
    words [''blue screen'', ''bsod'', ''boot loop'', ''won'' @ [char_of (39 :: nat)] @ ''t boot'',
           ''wont boot'', ''bitlocker'', ''recovery key'', ''startup repair'']"

definition EMAIL_OVERRIDE_RE :: regex where
  "EMAIL_OVERRIDE_RE =
    words [''outlook'', ''calendar'', ''shared mailbox'', ''delegate access'', ''mailbox'',
           ''invitation'', ''meeting invite'', ''exchange'', ''shared calendar'']"

definition BITLOCKER_RE :: regex where
  "BITLOCKER_RE = words [''bitlocker'', ''recovery key'', ''windows laptop'']"

definition HOME_WIFI :: regex where
  "HOME_WIFI =
    Alts [seqs [Lit ''home wi'', ClsRep (\<lambda>c. c = CHR ''-'') 0 (Some 1), Lit ''fi''], Lit ''home wifi'']"

definition HOTSPOT_HOME_WIFI_RE :: regex where
  "HOTSPOT_HOME_WIFI_RE =
    Alts [seqs [Bnd,
                Alts [Lit ''vpn works via hotspot'',
                      seqs [Lit ''vpn works from '', star dot, Lit ''hotspot''],
                      Lit ''hotspot works''],
                star dot, HOME_WIFI],
          seqs [HOME_WIFI, star dot, one_of [''vpn works via hotspot'', ''hotspot works''], Bnd]]"

definition DEVICE_EXPLICIT_RE :: regex where
  "DEVICE_EXPLICIT_RE = words [''iphone'', ''ios'', ''android'', ''windows'', ''mac'', ''macbook'']"

definition BLOCKING_WORK_RE :: regex where
  "BLOCKING_WORK_RE =
    words [''can'' @ [char_of (39 :: nat)] @ ''t work'', ''cannot work'', ''unable to work'', ''blocked'',
           ''can'' @ [char_of (39 :: nat)] @ ''t log in'', ''cannot log in'', ''reboot loop'',
           ''blue screen'']"

definition OUTAGE_RE :: regex where
  "OUTAGE_RE =
    seqs [Bnd,
          Alts [Lit ''outage'', Lit ''down'', Lit ''whole company'',
                seqs [Lit ''company'', ClsRep (\<lambda>c. c = CHR ''-'' \<or> is_space c) 0 (Some 1), Lit ''wide''],
                Lit ''whole team'', Lit ''all users'', Lit ''everyone'', Lit ''nobody can'',
                Lit (''can'' @ [char_of (39 :: nat)] @ ''t connect'')],
          Bnd]"

definition ACCESS_URGENT_RE :: regex where
  "ACCESS_URGENT_RE = words [''today'', ''asap'', ''urgent'', ''blocked now'', ''immediately'']"

text \<open>
  The source lists two more spellings of "can't access", written with characters
  outside ASCII; they match no ASCII text.
\<close>

definition NETWORK_BLOCK_ACCESS_RE :: regex where
  "NETWORK_BLOCK_ACCESS_RE =
    words [''cannot access'', ''can'' @ [char_of (39 :: nat)] @ ''t access'']"

definition NETWORK_TIMEOUT_DNS_PROXY_RE :: regex where
  "NETWORK_TIMEOUT_DNS_PROXY_RE = words [''timeout'', ''times out'', ''time out'', ''dns'', ''proxy'']"

definition CORP_NETWORK_RE :: regex where
  "CORP_NETWORK_RE = words [''company network'', ''office network'']"

definition EXTERNAL_SERVICE_RE :: regex where
  "EXTERNAL_SERVICE_RE = words [''github'', ''external site'', ''external service'', ''external services'']"

section \<open>The signal model (eval/rules.py)\<close>

definition CANON_FIELD_MAP :: "(string \<times> string list) list" where
  "CANON_FIELD_MAP =
    [(''error_message'', [''error_message_or_screenshot'', ''screenshot_or_error_code'']),
     (''exact_error_message'', [''error_message_or_screenshot'', ''screenshot_or_error_code'']),
     (''error_code'', [''screenshot_or_error_code'', ''error_details'']),
     (''speed_test'', [''speed_test_result'']),
     (''since_when'', [''when_started'', ''start_time'']),
     (''wifi_or_ethernet'', [''connection_type'']),
     (''network_type'', [''connection_type'', ''is_vpn_on'']),
     (''app_name'', [''application_name'']),
     (''system_name'', [''sap_system_name'', ''drive_name'', ''hr_portal_url'']),
     (''role_needed'', [''role_or_permissions'', ''access_level'', ''role'']),
     (''time_window'', [''exact_time_window'', ''start_time'']),
     (''indicators'', [''error_details'']),
     (''containment_steps'', [''error_details'']),
     (''what_happened'', [''what_was_sent'', ''error_details'']),
     (''affected_accounts'', [''team_distribution_list'', ''username'', ''employee_email'']),
     (''battery_or_power'', [''on_battery_or_power'']),
     (''apps_affected'', [''application_name''])]"

definition signal_bool :: "pydict \<Rightarrow> string \<Rightarrow> bool" where
  "signal_bool signals key = py_truth (dict_get signals key)"

definition signal_text :: "pydict \<Rightarrow> string \<Rightarrow> string" where
  "signal_text signals key = py_str (dict_get_default signals key (PStr []))"

definition normalize_scope :: "string \<Rightarrow> string" where
  "normalize_scope v =
    (let lowered = py_lower (py_strip v) in
     if lowered \<in> set [''single_user'', ''multiple_users'', ''unknown''] then lowered else ''unknown'')"

definition coerce_signal_bool :: "pyval \<Rightarrow> bool" where
  "coerce_signal_bool v =
    (case v of
       PBool b \<Rightarrow> b
     | PStr s \<Rightarrow>
         (let lowered = py_lower (py_strip s) in
          if lowered \<in> set [''true'', ''yes'', ''1''] then True
          else if lowered \<in> set [''false'', ''no'', ''0''] then False
          else py_truth v)
     | _ \<Rightarrow> py_truth v)"

text \<open>
  The coercions call \<open>str\<close> on what the payload holds, so they raise where \<open>str\<close>
  does; \<open>Inl\<close> is the exception that leaves the function.
\<close>

definition coerce_signal_choice :: "pyval \<Rightarrow> string list \<Rightarrow> string \<Rightarrow> py_error + string" where
  "coerce_signal_choice v allowed fallback =
    (case py_str_checked (if py_truth v then v else PStr []) of
       Inl e \<Rightarrow> Inl e
     | Inr s \<Rightarrow>
         (let text = py_lower (py_strip s) in
          Inr (if text \<in> set allowed then text else fallback)))"

fun coerce_items :: "pyval list \<Rightarrow> py_error + string list" where
  "coerce_items [] = Inr []"
| "coerce_items (item # items) =
     (case py_str_checked item of
        Inl e \<Rightarrow> Inl e
      | Inr s \<Rightarrow>
          (case coerce_items items of
             Inl e \<Rightarrow> Inl e
           | Inr out \<Rightarrow>
               (let text = py_strip s in
                Inr (if text = [] then out else text # out))))"

definition coerce_signal_list :: "pyval \<Rightarrow> py_error + string list" where
  "coerce_signal_list v = (case v of PList items \<Rightarrow> coerce_items items | _ \<Rightarrow> Inr [])"

definition coerce_ticket_signals :: "pydict \<Rightarrow> py_error + pydict" where
  "coerce_ticket_signals payload =
    (case coerce_signal_choice (dict_get payload ''device_hint'')
            [''windows'', ''mac'', ''iphone'', ''android''] ''unknown'' of
       Inl e \<Rightarrow> Inl e
     | Inr device_hint \<Rightarrow>
    (case coerce_signal_choice (dict_get payload ''scope'')
            [''single_user'', ''multiple_users''] ''unknown'' of
       Inl e \<Rightarrow> Inl e
     | Inr scope \<Rightarrow>
    (case coerce_signal_list (dict_get payload ''error_codes'') of
       Inl e \<Rightarrow> Inl e
     | Inr error_codes \<Rightarrow>
    (case py_str_checked (dict_get_default payload ''summary'' (PStr [])) of
       Inl e \<Rightarrow> Inl e
     | Inr summary \<Rightarrow>
         Inr [(''device_hint'', PStr device_hint),
              (''mentions_vpn'', PBool (coerce_signal_bool (dict_get payload ''mentions_vpn''))),
              (''mentions_email'', PBool (coerce_signal_bool (dict_get payload ''mentions_email''))),
              (''mentions_wifi_or_network'',
                 PBool (coerce_signal_bool (dict_get payload ''mentions_wifi_or_network''))),
              (''mentions_printer'', PBool (coerce_signal_bool (dict_get payload ''mentions_printer''))),
              (''mentions_software_app'',
                 PBool (coerce_signal_bool (dict_get payload ''mentions_software_app''))),
              (''mentions_laptop_issue'',
                 PBool (coerce_signal_bool (dict_get payload ''mentions_laptop_issue''))),
              (''access_request'', PBool (coerce_signal_bool (dict_get payload ''access_request''))),
              (''security_incident'', PBool (coerce_signal_bool (dict_get payload ''security_incident''))),
              (''scope'', PStr scope),
              (''error_codes'', PList (map PStr error_codes)),
              (''urgency_words'', PBool (coerce_signal_bool (dict_get payload ''urgency_words''))),
              (''summary'', PStr (py_strip summary))]))))"

section \<open>Canonical missing-field names (eval/rules.py)\<close>

text \<open>
  Without a vocabulary from the caller the source reads one from the evaluation data
  file; \<open>dflt\<close> stands for what that file holds.
\<close>

definition resolve_allowed_missing_fields :: "string list \<Rightarrow> string list option \<Rightarrow> string list" where
  "resolve_allowed_missing_fields dflt allowed_missing_fields =
    (case allowed_missing_fields of None \<Rightarrow> dflt | Some fields \<Rightarrow> fields)"

definition map_to_canonical :: "string \<Rightarrow> string list \<Rightarrow> string option" where
  "map_to_canonical field allowed =
    (if field \<in> set allowed then Some field
     else find (\<lambda>candidate. candidate \<in> set allowed)
            (case map_of CANON_FIELD_MAP field of None \<Rightarrow> [] | Some targets \<Rightarrow> targets))"

fun canonical_loop :: "string list \<Rightarrow> bool \<Rightarrow> string list \<Rightarrow> string list" where
  "canonical_loop allowed strict [] = []"
| "canonical_loop allowed strict (field # fields) =
     (case map_to_canonical field allowed of
        None \<Rightarrow> (if strict then canonical_loop allowed strict fields
                 else field # canonical_loop allowed strict fields)
      | Some canonical \<Rightarrow> canonical # canonical_loop allowed strict fields)"

definition normalize_missing_fields_to_canonical ::
  "string list \<Rightarrow> string list \<Rightarrow> string list option \<Rightarrow> bool \<Rightarrow> string list" where
  "normalize_missing_fields_to_canonical dflt fields allowed_missing_fields strict_missing_fields =
    (let allowed = resolve_allowed_missing_fields dflt allowed_missing_fields
     in dedupe (canonical_loop allowed strict_missing_fields (dedupe fields)))"

section \<open>The classification engine (eval/rules.py)\<close>

definition is_actionable_incident :: "pydict \<Rightarrow> string \<Rightarrow> bool" where
  "is_actionable_incident signals input_text =
    (let text = py_lower input_text;
         scope = normalize_scope (signal_text signals ''scope'');
         has_scope_or_location =
           (scope \<in> set [''single_user'', ''multiple_users''] \<or> search True LOCATION_HINT_RE text);
         has_clear_symptom =
           (search True ERROR_HINT_RE text
            \<or> search True STRONG_OUTAGE_RE text
            \<or> search True LOGIN_WORD_RE text
            \<or> search False (Seq Bnd (Seq ERROR_CODE_RE Bnd)) text
            \<or> search False (seqs [Bnd, Lit ''outlook'', star dot, Lit ''password'', Bnd]) text
            \<or> search True LOST_DEVICE_RE text)
     in has_scope_or_location \<and> has_clear_symptom)"

definition is_true_network_outage :: "pydict \<Rightarrow> string \<Rightarrow> bool" where
  "is_true_network_outage signals input_text =
    (let text = py_lower input_text;
         scope = normalize_scope (signal_text signals ''scope'');
         explicit_outage = search True STRONG_OUTAGE_RE text;
         has_network_text = search True NETWORK_TERM_RE text;
         multi_user_signal =
           (signal_bool signals ''mentions_wifi_or_network'' \<and> scope = ''multiple_users''
            \<and> has_network_text);
         explicit_multi_outage = search True OUTAGE_MULTI_RE text
     in explicit_outage \<or> multi_user_signal \<or> explicit_multi_outage)"

definition has_security_text :: "string \<Rightarrow> bool" where
  "has_security_text text = search True SECURITY_OVERRIDE_RE text"

definition is_lost_device_security :: "string \<Rightarrow> bool" where
  "is_lost_device_security text =
    (search True LOST_DEVICE_RE text
     \<and> (search True CORP_ACCESS_RE text \<or> contains ''email'' text \<or> contains ''access'' text))"

definition is_password_reset :: "string \<Rightarrow> bool" where
  "is_password_reset text =
    (contains ''password reset'' text \<or> (contains ''forgot'' text \<and> contains ''password'' text))"

definition is_new_joiner_request :: "string \<Rightarrow> bool" where
  "is_new_joiner_request text =
    search False (words [''new employee'', ''new hire'', ''joining'', ''joiner'', ''starts'']) text"

definition is_login_issue :: "pydict \<Rightarrow> string \<Rightarrow> bool" where
  "is_login_issue signals input_text =
    (if signal_bool signals ''access_request'' then False else search True LOGIN_WORD_RE input_text)"

definition infer_device :: "string \<Rightarrow> string \<Rightarrow> string" where
  "infer_device device_hint input_text =
    (let text = py_lower input_text in
     if search True BITLOCKER_RE text then ''Windows''
     else if search True HOTSPOT_HOME_WIFI_RE text then ''Unknown''
     else if is_lost_device_security text \<and> \<not> search True DEVICE_EXPLICIT_RE text then ''Unknown''
     else
       (let hint = py_lower (py_strip device_hint) in
        if hint = ''windows'' then ''Windows''
        else if hint = ''mac'' then ''Mac''
        else if hint = ''iphone'' then ''iPhone''
        else if hint = ''android'' then ''Android''
        else if contains ''windows'' text then ''Windows''
        else if contains ''macbook'' text \<or> contains ''mac'' text then ''Mac''
        else if contains ''iphone'' text \<or> contains ''ios'' text then ''iPhone''
        else if contains ''android'' text then ''Android''
        else ''Unknown''))"

definition infer_category :: "pydict \<Rightarrow> string \<Rightarrow> string" where
  "infer_category signals input_text =
    (let text = py_lower input_text;
         has_security_keywords = search True SECURITY_OVERRIDE_RE text;
         has_lost_device_security =
           (search True LOST_DEVICE_RE text
            \<and> (search True CORP_ACCESS_RE text \<or> contains ''email'' text \<or> contains ''access'' text));
         has_access_keyword = search True ACCESS_OVERRIDE_RE text;
         has_access_evidence = has_access_keyword;
         has_access_strong = search True ACCESS_STRONG_RE text;
         has_true_network_outage = is_true_network_outage signals input_text;
         has_network_access_issue =
           (search True NETWORK_PERF_RE text
            \<or> (contains ''company network'' text \<and> contains ''access'' text)
            \<or> (contains ''cannot connect'' text \<and> contains ''network'' text));
         has_software_issue = (search True APP_NAME_RE text \<and> search True SOFTWARE_SYMPTOM_RE text);
         has_pdf_software_pattern = (search True PRINT_TO_PDF_RE text \<and> \<not> contains ''printer'' text);
         has_hardware_request = search True HARDWARE_REQUEST_RE text;
         has_email_context = search True EMAIL_OVERRIDE_RE text;
         has_laptop_failure = search True LAPTOP_FAILURE_RE text;
         is_pure_physical_request = (search True PHYSICAL_REPLACEMENT_RE text \<and> \<not> has_access_keyword)
     in
     if has_security_keywords \<or> has_lost_device_security then ''Security''
     else if has_laptop_failure then ''Laptop''
     else if has_email_context then ''Email''
     else if has_access_evidence
             \<and> (has_access_strong \<or> (\<not> is_pure_physical_request \<and> \<not> has_network_access_issue))
          then ''Access''
     else if has_hardware_request \<and> \<not> has_access_keyword \<and> \<not> has_email_context then ''Hardware''
     else if has_pdf_software_pattern then ''Software''
     else if signal_bool signals ''mentions_printer'' \<or> search True PRINTER_OVERRIDE_RE text then ''Printer''
     else if has_software_issue then (if has_true_network_outage then ''Network'' else ''Software'')
     else if signal_bool signals ''mentions_vpn'' \<or> search True VPN_OVERRIDE_RE text then ''VPN''
     else if has_true_network_outage then ''Network''
     else if signal_bool signals ''mentions_wifi_or_network'' \<and> search True NETWORK_PERF_RE text
          then ''Network''
     else if signal_bool signals ''mentions_laptop_issue'' then ''Laptop''
     else if signal_bool signals ''mentions_email'' then ''Email''
     else if signal_bool signals ''mentions_software_app'' then ''Software''
     else ''Hardware'')"

definition infer_priority :: "pydict \<Rightarrow> string \<Rightarrow> string" where
  "infer_priority signals input_text =
    (let scope = normalize_scope (signal_text signals ''scope'');
         text = py_lower (input_text @ '' '' @ signal_text signals ''summary'');
         category = infer_category signals input_text;
         urgent = search True URGENCY_RE text;
         deadline = search True DEADLINE_RE text;
         outage_keywords = (search True OUTAGE_RE text \<or> search True STRONG_OUTAGE_RE text);
         severe_laptop = search True LAPTOP_FAILURE_RE text
     in
     if category = ''Security'' then
       (if search True LOST_DEVICE_RE text \<or> has_security_text text then ''P1'' else ''P2'')
     else if category = ''Network'' then
       (let multi_user_outage_text =
              search False (words [''all users'', ''everyone'', ''whole floor'', ''whole team'', ''nobody'']) text
        in
        if (scope = ''multiple_users'' \<and> outage_keywords) \<or> (outage_keywords \<and> multi_user_outage_text)
        then ''P1''
        else if scope = ''multiple_users'' then ''P2''
        else
          (let corporate_external_block =
                 (search True CORP_NETWORK_RE text \<and> search True EXTERNAL_SERVICE_RE text
                  \<and> (search True NETWORK_TIMEOUT_DNS_PROXY_RE text
                       \<or> search True NETWORK_BLOCK_ACCESS_RE text))
           in
           if corporate_external_block then ''P2''
           else if search True NETWORK_PERF_RE text
                   \<and> (contains ''still connects'' text \<or> contains ''connects'' text) then ''P3''
           else if search True NETWORK_PERF_RE text then ''P3''
           else if urgent then ''P2''
           else ''P3''))
     else if category = ''Laptop'' then
       (if severe_laptop then ''P1''
        else if search True BLOCKING_WORK_RE text \<or> urgent then ''P2''
        else ''P3'')
     else if category = ''VPN'' then
       (if search False (Seq Bnd (Seq ERROR_CODE_RE Bnd)) text \<or> urgent \<or> search True BLOCKING_WORK_RE text
        then ''P2'' else ''P3'')
     else if category = ''Access'' then
       (if is_password_reset text \<or> contains (''can'' @ [char_of (39 :: nat)] @ ''t access'') text
           \<or> contains ''cannot access'' text then ''P2''
        else if search True ACCESS_URGENT_RE text \<or> urgent then ''P2''
        else ''P3'')
     else if category = ''Email'' then
       (if scope = ''multiple_users'' \<and> outage_keywords \<and> \<not> search True EMAIL_OVERRIDE_RE text then ''P1''
        else if scope = ''multiple_users'' \<or> urgent then ''P2''
        else ''P3'')
     else if category = ''Software'' then
       (if contains ''slack'' text \<and> contains ''notification'' text \<and> contains ''update'' text
           \<and> \<not> urgent then ''P4''
        else if contains ''install'' text \<or> contains ''request'' text \<or> search True PRINT_TO_PDF_RE text
        then ''P4''
        else if urgent then ''P2''
        else ''P3'')
     else if category \<in> set [''Hardware'', ''Printer''] then
       (if urgent then ''P2''
        else if category = ''Printer'' then ''P3''
        else if search False
                  (words [''flicker'', ''flickers'', ''flickering'', ''not working'', ''issue'', ''broken'',
                          ''fails'']) text then ''P3''
        else ''P4'')
     else if scope = ''multiple_users'' then ''P2''
     else if urgent then ''P2''
     else if scope = ''single_user'' then ''P3''
     else ''P4'')"

definition REQUIRED_ACCESS :: "string list" where
  "REQUIRED_ACCESS =
    [''employee_name'', ''employee_email'', ''team'', ''access_level'', ''role_or_permissions'',
     ''start_date'', ''username'', ''manager_approval'', ''manager_approval_or_group'',
     ''sap_system_name'', ''drive_name'', ''hr_portal_url'', ''alternate_contact'']"

definition LAPTOP_DIAGNOSTIC :: "string list" where
  "LAPTOP_DIAGNOSTIC =
    [''username'', ''device_os'', ''when_started'', ''asset_id'', ''apps_affected'',
     ''on_battery_or_power'', ''stop_code'', ''recent_changes'']"

text \<open>
  \<open>missing_fields\<close> and \<open>category\<close> are optional arguments of the source; \<open>None\<close> and
  the empty value both fall back (\<open>category or ...\<close>, \<open>missing_fields or []\<close>).
\<close>

definition infer_needs_clarification ::
  "pydict \<Rightarrow> string \<Rightarrow> string list option \<Rightarrow> string option \<Rightarrow> bool" where
  "infer_needs_clarification signals input_text missing_fields category =
    (let category_value =
           (case category of None \<Rightarrow> infer_category signals input_text
            | Some c \<Rightarrow> if c = [] then infer_category signals input_text else c);
         missing = (case missing_fields of None \<Rightarrow> [] | Some m \<Rightarrow> m)
     in
     if missing = [] then False
     else if category_value = ''Security'' \<and> is_lost_device_security (py_lower input_text) then True
     else if category_value \<in> set [''VPN'', ''Network'', ''Email'', ''Security'']
             \<and> is_actionable_incident signals input_text then False
     else if category_value = ''Access'' then list_ex (\<lambda>field. field \<in> set REQUIRED_ACCESS) missing
     else if category_value = ''Laptop'' then list_ex (\<lambda>field. field \<in> set LAPTOP_DIAGNOSTIC) missing
     else if category_value = ''Printer''
          then list_ex (\<lambda>field. field \<in> set [''printer_id_or_model'', ''location'']) missing
     else True)"

definition field_mentioned :: "string \<Rightarrow> string \<Rightarrow> pydict \<Rightarrow> bool" where
  "field_mentioned field input_text signals =
    (let text = py_lower input_text;
         scope = normalize_scope (signal_text signals ''scope'')
     in
     if field = ''device_os'' then search True DEVICE_WORD_RE text
     else if field = ''username'' then search False EMAIL_RE text \<or> search True USERNAME_RE text
     else if field = ''employee_name'' then search False NAME_HINT_RE input_text
     else if field \<in> set [''employee_email'', ''alternate_contact''] then search False EMAIL_RE text
     else if field \<in> set [''team'', ''team_distribution_list''] then search True TEAM_RE text
     else if field \<in> set [''access_level'', ''role_or_permissions'', ''role'']
          then search True ACCESS_LEVEL_RE text
     else if field \<in> set [''manager_approval'', ''manager_approval_or_group'']
          then search False (words [''manager'', ''approval'', ''approved'', ''group'']) text
     else if field = ''start_date'' then search True DEADLINE_RE text
     else if field = ''sap_system_name'' then contains ''sap'' text
     else if field = ''drive_name'' then contains ''drive'' text
     else if field = ''hr_portal_url'' then contains ''hr portal'' text
     else if field \<in> set [''screenshot_or_error_code'', ''error_message_or_screenshot'', ''error_details'']
          then search True ERROR_HINT_RE text
     else if field = ''printer_id_or_model'' then search True PRINTER_ID_RE input_text
     else if field \<in> set [''location'', ''location_floor''] then search True LOCATION_HINT_RE text
     else if field \<in> set [''when_started'', ''start_time'', ''time_sent'', ''exact_time_window'']
          then search True TIME_HINT_RE text
     else if field = ''connection_type''
          then search False (words [''usb'', ''ethernet'', ''wifi'', ''wi-fi'', ''bluetooth'', ''lan'']) text
     else if field = ''speed_test_result''
          then search False (words [''speed test'', ''mbps'', ''latency'', ''packet loss'']) text
     else if field = ''vpn_client_name''
          then search False
                 (words [''anyconnect'', ''globalprotect'', ''openvpn'', ''pulse'', ''forticlient'']) text
     else if field = ''home_router_model'' then contains ''router'' text
     else if field = ''timezone''
          then search False (words [''utc'', ''gmt'', ''pst'', ''est'', ''ist'', ''timezone'']) text
     else if field = ''zoom_version''
          then search False
                 (seqs [Bnd, Lit ''zoom'', star dot, Bnd,
                        Alts [Lit ''version'', Seq (Lit ''v'') (cls is_digit)]]) text
     else if field = ''zoom_account_email'' then contains ''zoom'' text \<and> search False EMAIL_RE text
     else if field = ''meeting_id''
          then search False (seqs [Bnd, Lit ''meeting'', star is_space, Lit ''id'', Bnd]) text
     else if field = ''slack_version''
          then search False
                 (seqs [Bnd, Lit ''slack'', star dot, Bnd,
                        Alts [Lit ''version'', Seq (Lit ''v'') (cls is_digit)]]) text
     else if field = ''application_name''
          then search False (words [''teams'', ''slack'', ''zoom'', ''docker'', ''chrome'', ''outlook'']) text
     else if field = ''admin_approval''
          then search False (Alts [Seq Bnd (Lit ''admin''), Seq (Lit ''approval'') Bnd]) text
     else if field = ''windows_version''
          then search False (seqs [Bnd, Lit ''windows'', star is_space, cls is_digit]) text
     else if field \<in> set [''recipient_email_domain'', ''what_was_sent'']
          then search False EMAIL_RE text \<or> contains ''sent'' text
     else if field \<in> set [''device_type'', ''phone_number_or_asset_id'']
          then search False (words [''phone'', ''iphone'', ''android'', ''asset'', ''id'']) text
     else if field = ''last_known_time'' then search True TIME_HINT_RE text
     else if field = ''asset_id''
          then search False (words [''asset'', ''serial'', ''tag'', ''hostname'', ''device id'']) text
     else if field = ''on_battery_or_power''
          then search False (words [''battery'', ''power'', ''charging'', ''charger'']) text
     else if field = ''apps_affected''
          then search False (words [''app'', ''application'', ''teams'', ''zoom'', ''slack'', ''outlook'']) text
     else if field = ''scope'' then scope \<in> set [''single_user'', ''multiple_users'']
     else False)"

definition infer_missing_fields ::
  "string list \<Rightarrow> pydict \<Rightarrow> string \<Rightarrow> string list option \<Rightarrow> bool \<Rightarrow> string list" where
  "infer_missing_fields dflt signals input_text allowed_missing_fields strict_missing_fields =
    (let category = infer_category signals input_text;
         text = py_lower input_text;
         canonical = (\<lambda>fields. normalize_missing_fields_to_canonical dflt fields
                                   allowed_missing_fields strict_missing_fields);
         finish = (\<lambda>candidates.
                    canonical (filter (\<lambda>candidate. \<not> field_mentioned candidate input_text signals)
                                 (dedupe candidates)))
     in
     if category = ''Security'' \<and> is_lost_device_security text
     then canonical [''device_type'', ''phone_number_or_asset_id'', ''last_known_time'']
     else if category \<in> set [''VPN'', ''Network'', ''Email'', ''Security'']
             \<and> is_actionable_incident signals input_text then []
     else if category = ''Access'' then
       (let candidates =
              (if is_new_joiner_request text
               then [''employee_name'', ''employee_email'', ''team'', ''access_level'', ''start_date'']
               else [])
              @ (if contains ''sap'' text
                 then [''username'', ''sap_system_name'', ''role_or_permissions'', ''manager_approval'']
                 else [])
              @ (if contains ''drive'' text then [''drive_name'', ''manager_approval_or_group''] else [])
              @ (if contains ''hr portal'' text
                 then [''username'', ''hr_portal_url'', ''screenshot_or_error_code''] else [])
              @ (if is_password_reset text then [''username'', ''alternate_contact''] else [])
        in finish (if candidates = [] then [''username'', ''access_level''] else candidates))
     else if category = ''Laptop'' then
       finish
         (if search True BITLOCKER_RE text then [''asset_id'', ''username'', ''is_company_managed'']
          else if is_login_issue signals input_text then [''device_os'', ''username'', ''when_started'']
          else if search True LAPTOP_FAILURE_RE text then [''device_os'', ''stop_code'', ''recent_changes'']
          else [''device_os'', ''when_started'', ''apps_affected'', ''on_battery_or_power''])
     else if category = ''Printer'' then finish [''printer_id_or_model'', ''location'']
     else if category = ''Software'' then
       (let candidates =
              (if search True APP_NAME_RE text \<and> search True SOFTWARE_SYMPTOM_RE text
               then [''when_started'', ''error_message''] else [])
              @ (if contains ''zoom'' text
                 then [''zoom_version'']
                      @ (if contains ''removed'' text
                         then [''device_os'', ''zoom_account_email'', ''meeting_id''] else [])
                 else [])
              @ (if contains ''slack'' text then [''slack_version'', ''when_started''] else [])
              @ (if contains ''docker'' text then [''admin_approval'', ''windows_version''] else [])
              @ (if contains ''print to pdf'' text \<or> contains ''pdf'' text
                 then [''device_os'', ''application_name'', ''when_started''] else [])
        in finish (if candidates = [] \<and> signal_bool signals ''mentions_software_app''
                   then [''when_started'', ''error_message''] else candidates))
     else if category = ''Network'' then
       (if contains ''slow'' text then canonical [''location_floor'', ''speed_test'', ''start_time'']
        else finish
               ((if contains ''github'' text then [''location'', ''is_vpn_on'', ''error_details''] else [])
                @ (if (contains ''wifi'' text \<or> contains ''wi-fi'' text) \<and> \<not> contains ''slow'' text
                   then [''wifi_or_ethernet''] else [])))
     else if category = ''VPN'' then
       finish
         (if search True HOTSPOT_HOME_WIFI_RE text
          then [''device_os'', ''vpn_client_name'', ''home_router_model'']
          else if \<not> is_actionable_incident signals input_text
          then [''device_os'', ''vpn_client_name'', ''exact_error_message'', ''when_started'']
               @ (if contains ''home'' text \<or> contains ''hotspot'' text then [''home_router_model''] else [])
               @ (if contains ''night'' text \<or> contains ''morning'' text
                  then [''timezone'', ''exact_time_window''] else [])
          else [])
     else if category = ''Security'' then
       finish
         ((if contains ''external email'' text \<or> contains ''sent'' text
           then [''recipient_email_domain'', ''what_happened'', ''time_sent''] else [])
          @ (if contains ''lost'' text \<and> contains ''phone'' text
             then [''device_type'', ''phone_number_or_asset_id'', ''last_known_time''] else []))
     else if category = ''Email'' then
       finish
         (if contains ''calendar'' text \<or> contains ''mailbox'' text
          then [''calendar_name'', ''team_distribution_list'', ''start_time'']
          else if contains ''delivery'' text \<and> (contains ''whole company'' text \<or> contains ''company'' text)
          then [''start_time'', ''affected_domains'']
          else [])
     else if category = ''Hardware'' then
       finish
         ((if contains ''monitor'' text then [''laptop_model'', ''monitor_model'', ''cable_or_port_tested'']
           else [])
          @ (if contains ''keyboard'' text then [''keyboard_type'', ''connection_type'', ''when_started'']
             else [])
          @ (if contains ''new laptop'' text
             then [''employee_name'', ''start_date'', ''role'', ''preferred_os''] else []))
     else finish [])"

text \<open>\<open>_clamp\<close> appends to the caller's warning list; the model returns the new list.\<close>

definition clamp :: "string \<Rightarrow> string list \<Rightarrow> string \<Rightarrow> string list \<Rightarrow> string \<Rightarrow> string \<times> string list" where
  "clamp v allowed fallback warnings warning =
    (if v \<in> set allowed then (v, warnings) else (fallback, warnings @ [warning]))"

definition build_output_from_signals ::
  "string list \<Rightarrow> pydict \<Rightarrow> string \<Rightarrow> string list option \<Rightarrow> bool \<Rightarrow> pydict \<times> string list" where
  "build_output_from_signals dflt signals input_text allowed_missing_fields strict_missing_fields =
    (let device = infer_device (signal_text signals ''device_hint'') input_text;
         category = infer_category signals input_text;
         priority = infer_priority signals input_text;
         missing_fields0 = infer_missing_fields dflt signals input_text allowed_missing_fields
                             strict_missing_fields;
         needs_clarification0 = infer_needs_clarification signals input_text (Some missing_fields0)
                                  (Some category);
         dropped = (missing_fields0 \<noteq> [] \<and> \<not> needs_clarification0);
         missing_fields = (if dropped then [] else missing_fields0);
         w1 = (if dropped then [''dropped_non_blocking_missing_fields''] else []);
         forced = (missing_fields = [] \<and> needs_clarification0);
         needs_clarification = (if forced then False else needs_clarification0);
         w2 = w1 @ (if forced then [''forced_needs_clarification_false''] else []);
         summary0 = py_strip (signal_text signals ''summary'');
         summary = (if summary0 = [] then take 160 (py_strip input_text) else summary0);
         w3 = w2 @ (if summary0 = [] then [''defaulted_summary_from_input''] else []);
         (category', w4) = clamp category ALLOWED_CATEGORIES ''Software'' w3 ''category_out_of_set'';
         (priority', w5) = clamp priority ALLOWED_PRIORITIES ''P3'' w4 ''priority_out_of_set'';
         (device', w6) = clamp device ALLOWED_DEVICES ''Unknown'' w5 ''device_out_of_set''
     in
     ([(''category'', PStr category'),
       (''priority'', PStr priority'),
       (''device'', PStr device'),
       (''needs_clarification'', PBool needs_clarification),
       (''missing_fields'', PList (map PStr missing_fields)),
       (''summary'', PStr summary)],
      dedupe w6))"

section \<open>Output normalization (eval/normalize.py)\<close>

definition CATEGORY_SYNONYMS :: "(string \<times> string) list" where
  "CATEGORY_SYNONYMS =
    [(''auth'', ''Access''), (''authentication'', ''Access''), (''login'', ''Access''),
     (''password'', ''Access''), (''account'', ''Access''), (''wifi'', ''Network''),
     (''wi-fi'', ''Network''), (''internet'', ''Network''), (''outlook'', ''Email''),
     (''mail'', ''Email''), (''calendar'', ''Email''), (''zoom'', ''Software''),
     (''teams'', ''Software''), (''slack'', ''Software''), (''docker'', ''Software''),
     (''bitlocker'', ''Laptop''), (''blue screen'', ''Laptop''), (''bsod'', ''Laptop'')]"

text \<open>
  The helpers of this module write into the dict and the warning list they are given;
  the model returns both.
\<close>

definition ensure_text_key ::
  "pydict \<Rightarrow> string \<Rightarrow> string \<Rightarrow> string list \<Rightarrow> string \<times> pydict \<times> string list" where
  "ensure_text_key data key dflt warnings =
    (let v = dict_get data key in
     if v = PNone then (dflt, dict_set key (PStr dflt) data, warnings @ [''defaulted_'' @ key])
     else
       (let text = py_strip (py_str v) in
        if text = [] then (dflt, dict_set key (PStr dflt) data, warnings @ [''defaulted_'' @ key])
        else (text, dict_set key (PStr text) data, warnings)))"

definition normalize_category :: "string \<Rightarrow> string \<Rightarrow> string list \<Rightarrow> string \<times> string list" where
  "normalize_category category input_text_lower warnings =
    (let clean = py_strip category;
         lowered = py_lower clean
     in
     if clean \<in> set ALLOWED_CATEGORIES then (clean, warnings)
     else
       (case find (\<lambda>entry. contains (fst entry) lowered) CATEGORY_SYNONYMS of
          Some entry \<Rightarrow> (snd entry, warnings @ [''normalized_category_synonym''])
        | None \<Rightarrow>
            if contains ''vpn'' lowered then (''VPN'', warnings @ [''normalized_category_synonym''])
            else (''Software'', warnings @ [''category_out_of_set''])))"

definition infer_device_from_text :: "string \<Rightarrow> string option" where
  "infer_device_from_text input_text_lower =
    (if contains ''windows'' input_text_lower then Some ''Windows''
     else if contains ''macbook'' input_text_lower \<or> contains ''mac'' input_text_lower then Some ''Mac''
     else if contains ''iphone'' input_text_lower \<or> contains ''ios'' input_text_lower then Some ''iPhone''
     else if contains ''android'' input_text_lower then Some ''Android''
     else None)"

definition normalize_device :: "pyval \<Rightarrow> string \<Rightarrow> string list \<Rightarrow> string \<times> string list" where
  "normalize_device device_value input_text_lower warnings =
    (let inferred = infer_device_from_text input_text_lower;
         raw = (case device_value of PStr s \<Rightarrow> py_strip s | _ \<Rightarrow> [])
     in
     if raw = [] then
       (case inferred of
          Some d \<Rightarrow> (d, warnings @ [''defaulted_device_from_text''])
        | None \<Rightarrow> (''Unknown'', warnings @ [''defaulted_device'']))
     else
       (let lowered = py_lower raw in
        if contains ''iphone'' lowered \<or> contains ''ios'' lowered then (''iPhone'', warnings)
        else if contains ''android'' lowered then (''Android'', warnings)
        else if contains ''mac'' lowered \<or> contains ''macbook'' lowered then (''Mac'', warnings)
        else if contains ''windows'' lowered then (''Windows'', warnings)
        else if raw = ''Laptop'' \<and> inferred = Some ''Windows''
        then (''Windows'', warnings @ [''mapped_laptop_to_os_device''])
        else if raw = ''Laptop'' \<and> inferred = Some ''Mac''
        then (''Mac'', warnings @ [''mapped_laptop_to_os_device''])
        else if raw \<in> set ALLOWED_DEVICES then (raw, warnings)
        else
          (case inferred of
             Some d \<Rightarrow> (d, warnings @ [''device_out_of_set_mapped_from_text''])
           | None \<Rightarrow> (''Unknown'', warnings @ [''device_out_of_set'']))))"

definition normalize_priority :: "string \<Rightarrow> string list \<Rightarrow> string \<times> string list" where
  "normalize_priority priority warnings =
    (let clean = py_upper (py_strip priority) in
     if clean \<in> set ALLOWED_PRIORITIES then (clean, warnings)
     else if clean \<in> set [''HIGH'', ''URGENT''] then (''P1'', warnings @ [''normalized_priority''])
     else if clean \<in> set [''MEDIUM'', ''NORMAL''] then (''P3'', warnings @ [''normalized_priority''])
     else if clean = ''LOW'' then (''P4'', warnings @ [''normalized_priority''])
     else if clean \<noteq> [] \<and> last clean \<in> set ''1234''
             \<and> (''P'' @ [last clean]) \<in> set ALLOWED_PRIORITIES
     then (''P'' @ [last clean], warnings @ [''normalized_priority''])
     else (''P3'', warnings @ [''priority_out_of_set'']))"

fun strip_items :: "pyval list \<Rightarrow> string list" where
  "strip_items [] = []"
| "strip_items (item # items) =
     (let text = py_strip (py_str item) in
      if text = [] then strip_items items else text # strip_items items)"

definition normalize_missing_fields :: "pyval \<Rightarrow> string list \<Rightarrow> string list \<times> string list" where
  "normalize_missing_fields v warnings =
    (case v of
       PList items \<Rightarrow> (dedupe (strip_items items), warnings)
     | _ \<Rightarrow> ([], warnings @ [''defaulted_missing_fields'']))"

definition normalize_bool :: "pyval \<Rightarrow> bool" where
  "normalize_bool v =
    (case v of
       PBool b \<Rightarrow> b
     | PStr s \<Rightarrow>
         (let lowered = py_lower (py_strip s) in
          if lowered \<in> set [''true'', ''yes'', ''1''] then True
          else if lowered \<in> set [''false'', ''no'', ''0''] then False
          else py_truth v)
     | _ \<Rightarrow> py_truth v)"

definition normalize_output :: "pydict \<Rightarrow> string \<Rightarrow> pydict \<times> string list" where
  "normalize_output actual input_text =
    (let text = py_lower input_text;
         (category, n1, w1) = ensure_text_key actual ''category'' ''Software'' [];
         (priority, n2, w2) = ensure_text_key n1 ''priority'' ''P3'' w1;
         (summary, n3, w3) = ensure_text_key n2 ''summary'' [] w2;
         (n4, w4) = (if \<not> has_key n3 ''needs_clarification''
                     then (dict_set ''needs_clarification'' (PBool False) n3,
                           w3 @ [''defaulted_needs_clarification''])
                     else (n3, w3));
         (n5, w5) = (if \<not> has_key n4 ''missing_fields''
                     then (dict_set ''missing_fields'' (PList []) n4, w4 @ [''defaulted_missing_fields''])
                     else (n4, w4));
         (category', w6) = normalize_category category text w5;
         n6 = dict_set ''category'' (PStr category') n5;
         (priority', w7) = normalize_priority priority w6;
         n7 = dict_set ''priority'' (PStr priority') n6;
         (device', w8) = normalize_device (dict_get n7 ''device'') text w7;
         n8 = dict_set ''device'' (PStr device') n7;
         n9 = dict_set ''summary''
                (PStr (py_strip (py_str (dict_get_default n8 ''summary'' (PStr []))))) n8;
         (missing_fields, w9) = normalize_missing_fields (dict_get n9 ''missing_fields'') w8;
         n10 = dict_set ''missing_fields'' (PList (map PStr missing_fields)) n9;
         needs_clarification = normalize_bool (dict_get n10 ''needs_clarification'');
         n11 = dict_set ''needs_clarification'' (PBool needs_clarification) n10;
         coerced = (missing_fields \<noteq> [] \<and> \<not> needs_clarification);
         n12 = (if coerced then dict_set ''needs_clarification'' (PBool True) n11 else n11);
         w10 = w9 @ (if coerced then [''coerced_needs_clarification_true''] else []);
         w11 = w10 @ (if (coerced \<or> needs_clarification) \<and> missing_fields = []
                      then [''needs_clarification_without_missing_fields''] else [])
     in (n12, dedupe w11))"

section \<open>Schema validation and scoring (eval/schema.py, eval/scoring.py)\<close>

















section \<open>Extraction and repair of model output (providers/ollama.py)\<close>

text \<open>
  The scanner of \<open>extract_first_json_object\<close>: \<open>idx\<close> is the index of the character
  at the head of the remaining text, \<open>start\<close> is \<open>-1\<close> until an object opens.
\<close>

fun scan_object :: "string \<Rightarrow> nat \<Rightarrow> nat \<Rightarrow> int \<Rightarrow> bool \<Rightarrow> bool \<Rightarrow> string \<Rightarrow> string option" where
  "scan_object text idx depth start in_string escaped [] = None"
| "scan_object text idx depth start in_string escaped (ch # rest) =
     (if in_string then
        (if escaped then scan_object text (idx + 1) depth start in_string False rest
         else if ch = char_of (92 :: nat) then scan_object text (idx + 1) depth start in_string True rest
         else if ch = char_of (34 :: nat) then scan_object text (idx + 1) depth start False escaped rest
         else scan_object text (idx + 1) depth start in_string escaped rest)
      else if ch = char_of (34 :: nat) then scan_object text (idx + 1) depth start True escaped rest
      else if ch = CHR ''{'' then
        scan_object text (idx + 1) (depth + 1) (if depth = 0 then int idx else start)
          in_string escaped rest
      else if ch = CHR ''}'' \<and> depth > 0 then
        (if depth - 1 = 0 \<and> start \<ge> 0
         then Some (take (idx + 1 - nat start) (drop (nat start) text))
         else scan_object text (idx + 1) (depth - 1) start in_string escaped rest)
      else scan_object text (idx + 1) depth start in_string escaped rest)"

definition extract_first_json_object :: "string \<Rightarrow> string option" where
  "extract_first_json_object text = scan_object text 0 0 (- 1) False False text"

text \<open>
  \<open>json.loads\<close> belongs to the standard library; \<open>loads\<close> stands for it. A call
  gives a value, raises \<open>JSONDecodeError\<close>, or raises another exception: \<open>ValueError\<close>
  on an integer literal past the digit limit, \<open>RecursionError\<close> on deep nesting. The
  function catches \<open>JSONDecodeError\<close> only, so every other exception leaves it: \<open>Inl\<close>.
\<close>

datatype loads_result = Parsed pyval | JSONDecodeError | Raised py_error

definition parse_json_object_with_repair ::
  "(string \<Rightarrow> loads_result) \<Rightarrow> string \<Rightarrow> py_error + (pyval option \<times> bool \<times> string)" where
  "parse_json_object_with_repair loads text =
    (let raw = py_strip text;
         check = (\<lambda>parsed. case parsed of PDict d \<Rightarrow> Inr (Some parsed, True, [])
                            | _ \<Rightarrow> Inr (None, False, ''InvalidJSON''))
     in
     if raw = [] then Inr (None, False, ''EmptyOutput'')
     else
       (case loads raw of
          Parsed parsed \<Rightarrow> check parsed
        | Raised e \<Rightarrow> Inl e
        | JSONDecodeError \<Rightarrow>
            (case extract_first_json_object raw of
               None \<Rightarrow> Inr (None, False, ''ExtractionFailure'')
             | Some candidate \<Rightarrow>
                 (case loads candidate of
                    JSONDecodeError \<Rightarrow> Inr (None, False, ''InvalidJSON'')
                  | Raised e \<Rightarrow> Inl e
                  | Parsed parsed \<Rightarrow> check parsed))))"

section \<open>Aggregation: latency percentiles and gates (reporting/summarize.py)\<close>

text \<open>
  Floats are modelled by reals, so the rank of a percentile is computed in exact
  arithmetic. The rows are the parsed lines of the result and event files. Of the
  summary, the keys that \<open>evaluate_gates\<close> reads are modelled; the text that renders a
  threshold is not.
\<close>

definition DEFAULT_category_accuracy_min :: real where
  "DEFAULT_category_accuracy_min = 85 / 100"

definition DEFAULT_schema_valid_rate_min :: real where
  "DEFAULT_schema_valid_rate_min = 1"

definition DEFAULT_latency_p95_ms_max :: real where
  "DEFAULT_latency_p95_ms_max = 2000"

definition OLLAMA_latency_p95_ms_max :: real where
  "OLLAMA_latency_p95_ms_max = 6000"

fun rate_count :: "pyval list \<Rightarrow> string \<Rightarrow> py_error + nat" where
  "rate_count [] key = Inr 0"
| "rate_count (row # rows) key =
     (case row of
        PDict d \<Rightarrow>
          (case rate_count rows key of
             Inl e \<Rightarrow> Inl e
           | Inr n \<Rightarrow> Inr (if py_truth (dict_get d key) then Suc n else n))
      | _ \<Rightarrow> Inl AttributeError)"

definition rate :: "pyval list \<Rightarrow> string \<Rightarrow> py_error + real" where
  "rate rows key =
    (if rows = [] then Inr 0
     else (case rate_count rows key of
             Inl e \<Rightarrow> Inl e
           | Inr good \<Rightarrow> Inr (real good / real (length rows))))"

definition percentile :: "real list \<Rightarrow> int \<Rightarrow> py_error + real" where
  "percentile values p =
    (if values = [] then Inr 0
     else
       (let sorted_values = sort values;
            rank = max 1 (\<lceil>(real_of_int p / 100) * real (length sorted_values)\<rceil>)
        in if nat (rank - 1) < length sorted_values then Inr (sorted_values ! nat (rank - 1))
           else Inl IndexError))"

text \<open>
  The comprehension that collects \<open>latency_ms\<close>: a row counts when it is a dict whose
  \<open>latency_ms\<close> is an int or a float; a bool is an int in Python.
\<close>

fun latencies_of :: "pyval list \<Rightarrow> real list" where
  "latencies_of [] = []"
| "latencies_of (row # rows) =
     (case row of
        PDict d \<Rightarrow>
          (case dict_get d ''latency_ms'' of
             PInt i \<Rightarrow> real_of_int i # latencies_of rows
           | PBool b \<Rightarrow> (if b then 1 else 0) # latencies_of rows
           | PFloat r s \<Rightarrow> r # latencies_of rows
           | _ \<Rightarrow> latencies_of rows)
      | _ \<Rightarrow> latencies_of rows)"

fun string_values :: "pyval list \<Rightarrow> string \<Rightarrow> py_error + string list" where
  "string_values [] key = Inr []"
| "string_values (row # rows) key =
     (case row of
        PDict d \<Rightarrow>
          (case string_values rows key of
             Inl e \<Rightarrow> Inl e
           | Inr vs \<Rightarrow>
               (case dict_get d key of
                  PStr s \<Rightarrow> Inr (if s \<noteq> [] then s # vs else vs)
                | _ \<Rightarrow> Inr vs))
      | _ \<Rightarrow> Inl AttributeError)"

definition single_string_value :: "pyval list \<Rightarrow> string \<Rightarrow> py_error + string" where
  "single_string_value rows key =
    (case string_values rows key of
       Inl e \<Rightarrow> Inl e
     | Inr vs \<Rightarrow>
         (case dedupe vs of
            [] \<Rightarrow> Inr ''unknown''
          | [v] \<Rightarrow> Inr v
          | _ \<Rightarrow> Inr ''mixed''))"

record summary =
  sm_provider :: string
  sm_schema_valid_rate :: real
  sm_accuracy_category :: real
  sm_latency_p50 :: real
  sm_latency_p95 :: real

definition summarize_results :: "pyval list \<Rightarrow> pyval list \<Rightarrow> py_error + summary" where
  "summarize_results results events =
    (case rate results ''schema_valid'' of
       Inl e \<Rightarrow> Inl e
     | Inr schema_valid_rate \<Rightarrow>
    (case rate results ''category_correct'' of
       Inl e \<Rightarrow> Inl e
     | Inr category_accuracy \<Rightarrow>
    (let latencies0 = latencies_of events;
         latencies = (if latencies0 = [] then latencies_of results else latencies0)
     in
    (case single_string_value results ''provider'' of
       Inl e \<Rightarrow> Inl e
     | Inr provider \<Rightarrow>
    (case percentile latencies 50 of
       Inl e \<Rightarrow> Inl e
     | Inr p50 \<Rightarrow>
    (case percentile latencies 95 of
       Inl e \<Rightarrow> Inl e
     | Inr p95 \<Rightarrow>
         Inr \<lparr> sm_provider = provider,
               sm_schema_valid_rate = schema_valid_rate,
               sm_accuracy_category = category_accuracy,
               sm_latency_p50 = p50,
               sm_latency_p95 = p95 \<rparr>))))))"

record gate_limits =
  category_accuracy_min :: real
  schema_valid_rate_min :: real
  latency_p95_ms_max :: real

text \<open>
  \<open>env_latency\<close> is the value of the environment variable that overrides the latency
  ceiling, when it is set and reads as a float; \<open>gates\<close> is the caller's override dict.
\<close>

definition resolve_gate_limits :: "summary \<Rightarrow> real option \<Rightarrow> (string \<times> real) list option \<Rightarrow> gate_limits" where
  "resolve_gate_limits sm env_latency gates =
    (let provider = py_lower (sm_provider sm);
         l1 = \<lparr> category_accuracy_min = DEFAULT_category_accuracy_min,
                schema_valid_rate_min = DEFAULT_schema_valid_rate_min,
                latency_p95_ms_max = (if provider = ''ollama'' then OLLAMA_latency_p95_ms_max
                                      else DEFAULT_latency_p95_ms_max) \<rparr>;
         l2 = (case env_latency of
                 Some parsed \<Rightarrow> if parsed > 0 then l1 \<lparr> latency_p95_ms_max := parsed \<rparr> else l1
               | None \<Rightarrow> l1);
         g = (case gates of None \<Rightarrow> [] | Some kvs \<Rightarrow> kvs)
     in \<lparr> category_accuracy_min =
            (case map_of g ''category_accuracy_min'' of Some v \<Rightarrow> v | None \<Rightarrow> category_accuracy_min l2),
          schema_valid_rate_min =
            (case map_of g ''schema_valid_rate_min'' of Some v \<Rightarrow> v | None \<Rightarrow> schema_valid_rate_min l2),
          latency_p95_ms_max =
            (case map_of g ''latency_p95_ms_max'' of Some v \<Rightarrow> v | None \<Rightarrow> latency_p95_ms_max l2) \<rparr>)"

definition float_eq :: "real \<Rightarrow> real \<Rightarrow> bool" where
  "float_eq a b = (\<bar>a - b\<bar> \<le> 1 / 10 ^ 9)"

record gate_check =
  check_name :: string
  check_passed :: bool
  check_actual :: real

record gate_report =
  gates_passed :: bool
  gates_checks :: "gate_check list"

definition evaluate_gates :: "summary \<Rightarrow> real option \<Rightarrow> (string \<times> real) list option \<Rightarrow> gate_report" where
  "evaluate_gates sm env_latency gates =
    (let limits = resolve_gate_limits sm env_latency gates;
         checks =
           [\<lparr> check_name = ''category_accuracy'',
              check_passed = (sm_accuracy_category sm \<ge> category_accuracy_min limits),
              check_actual = sm_accuracy_category sm \<rparr>,
            \<lparr> check_name = ''schema_valid_rate'',
              check_passed = float_eq (sm_schema_valid_rate sm) (schema_valid_rate_min limits),
              check_actual = sm_schema_valid_rate sm \<rparr>,
            \<lparr> check_name = ''latency_p95_ms'',
              check_passed = (sm_latency_p95 sm \<le> latency_p95_ms_max limits),
              check_actual = sm_latency_p95 sm \<rparr>]
     in \<lparr> gates_passed = list_all check_passed checks, gates_checks = checks \<rparr>)"

section \<open>Definitions that follow the specification's words\<close>







section \<open>Helper lemmas\<close>

lemma set_dedupe_from: "set (dedupe_from seen xs) = set xs - set seen"
  by (induction xs arbitrary: seen) auto

lemma set_dedupe: "set (dedupe xs) = set xs"
  by (simp add: dedupe_def set_dedupe_from)

lemma find_SomeD: "find P xs = Some y \<Longrightarrow> P y \<and> y \<in> set xs"
  by (induction xs) (simp_all split: if_splits)

lemma map_to_canonical_Some:
  assumes "map_to_canonical f allowed = Some x"
  shows "x \<in> set allowed \<and>
     (x = f \<or> x \<in> set (case map_of CANON_FIELD_MAP f of None \<Rightarrow> [] | Some ts \<Rightarrow> ts))"
proof (cases "f \<in> set allowed")
  case True
  have "x = f" using assms True by (simp add: map_to_canonical_def)
  then show ?thesis using True by simp
next
  case False
  with assms have "find (\<lambda>candidate. candidate \<in> set allowed)
      (case map_of CANON_FIELD_MAP f of None \<Rightarrow> [] | Some ts \<Rightarrow> ts) = Some x"
    by (simp add: map_to_canonical_def)
  from find_SomeD [OF this] show ?thesis by simp
qed

lemma map_to_canonical_None:
  "map_to_canonical f allowed = None \<Longrightarrow> f \<notin> set allowed"
  by (auto simp: map_to_canonical_def split: if_splits)

lemma canonical_loop_elem:
  "x \<in> set (canonical_loop allowed strict fs) \<Longrightarrow>
     (\<exists>f \<in> set fs. map_to_canonical f allowed = Some x)
     \<or> (\<not> strict \<and> x \<in> set fs \<and> map_to_canonical x allowed = None)"
  by (induction fs) (auto split: option.splits if_splits)



lemma normalize_output_steps:
  assumes "e1 = ensure_text_key actual ''category'' ''Software'' []"
    and "e2 = ensure_text_key (fst (snd e1)) ''priority'' ''P3'' (snd (snd e1))"
    and "e3 = ensure_text_key (fst (snd e2)) ''summary'' [] (snd (snd e2))"
    and "nw4 = (if \<not> has_key (fst (snd e3)) ''needs_clarification''
               then (dict_set ''needs_clarification'' (PBool False) (fst (snd e3)),
                     snd (snd e3) @ [''defaulted_needs_clarification''])
               else (fst (snd e3), snd (snd e3)))"
    and "nw5 = (if \<not> has_key (fst nw4) ''missing_fields''
               then (dict_set ''missing_fields'' (PList []) (fst nw4), snd nw4 @ [''defaulted_missing_fields''])
               else (fst nw4, snd nw4))"
    and "c6 = normalize_category (fst e1) (py_lower input_text) (snd nw5)"
    and "n6 = dict_set ''category'' (PStr (fst c6)) (fst nw5)"
    and "p7 = normalize_priority (fst e2) (snd c6)"
    and "n7 = dict_set ''priority'' (PStr (fst p7)) n6"
    and "d8 = normalize_device (dict_get n7 ''device'') (py_lower input_text) (snd p7)"
    and "n8 = dict_set ''device'' (PStr (fst d8)) n7"
    and "n9 = dict_set ''summary'' (PStr (py_strip (py_str (dict_get_default n8 ''summary'' (PStr []))))) n8"
    and "m9 = normalize_missing_fields (dict_get n9 ''missing_fields'') (snd d8)"
    and "n10 = dict_set ''missing_fields'' (PList (map PStr (fst m9))) n9"
    and "b = normalize_bool (dict_get n10 ''needs_clarification'')"
    and "n11 = dict_set ''needs_clarification'' (PBool b) n10"
  shows "normalize_output actual input_text =
     (if fst m9 \<noteq> [] \<and> \<not> b then dict_set ''needs_clarification'' (PBool True) n11 else n11,
      dedupe ((snd m9 @ (if fst m9 \<noteq> [] \<and> \<not> b then [''coerced_needs_clarification_true''] else []))
              @ (if ((fst m9 \<noteq> [] \<and> \<not> b) \<or> b) \<and> fst m9 = []
                 then [''needs_clarification_without_missing_fields''] else [])))"
  unfolding normalize_output_def assms Let_def split_beta
  by (rule refl)

lemma map_of_dict_set: "map_of (dict_set k v d) k' = (if k' = k then Some v else map_of d k')"
  by (induction d) auto

lemma dict_get_dict_set: "dict_get (dict_set k v d) k' = (if k' = k then v else dict_get d k')"
  by (simp add: dict_get_def map_of_dict_set)

lemma dict_get_default_dict_set:
  "dict_get_default (dict_set k v d) k' x = (if k' = k then v else dict_get_default d k' x)"
  by (simp add: dict_get_default_def map_of_dict_set)

lemma has_key_dict_set: "has_key (dict_set k v d) k' = (k' = k \<or> has_key d k')"
  by (simp add: has_key_def map_of_dict_set)

lemma ensure_text_key_dict:
  "fst (snd (ensure_text_key d k dflt w)) = dict_set k (PStr (fst (ensure_text_key d k dflt w))) d"
  by (simp add: ensure_text_key_def Let_def)

lemma ensure_text_key_warn:
  "x \<in> {''coerced_needs_clarification_true'', ''needs_clarification_without_missing_fields''} \<Longrightarrow> k \<in> {''category'', ''priority'', ''summary''} \<Longrightarrow>
     (x \<in> set (snd (snd (ensure_text_key d k dflt w)))) = (x \<in> set w)"
  by (auto simp: ensure_text_key_def Let_def)

lemma normalize_category_warn:
  "x \<in> {''coerced_needs_clarification_true'', ''needs_clarification_without_missing_fields''} \<Longrightarrow> (x \<in> set (snd (normalize_category c t w))) = (x \<in> set w)"
  by (auto simp: normalize_category_def Let_def split: option.splits)

lemma normalize_priority_warn:
  "x \<in> {''coerced_needs_clarification_true'', ''needs_clarification_without_missing_fields''} \<Longrightarrow> (x \<in> set (snd (normalize_priority p w))) = (x \<in> set w)"
  by (auto simp: normalize_priority_def Let_def)

lemma normalize_device_warn:
  "x \<in> {''coerced_needs_clarification_true'', ''needs_clarification_without_missing_fields''} \<Longrightarrow> (x \<in> set (snd (normalize_device v t w))) = (x \<in> set w)"
  by (auto simp: normalize_device_def Let_def split: option.splits)

lemma normalize_missing_fields_warn:
  "x \<in> {''coerced_needs_clarification_true'', ''needs_clarification_without_missing_fields''} \<Longrightarrow> (x \<in> set (snd (normalize_missing_fields v w))) = (x \<in> set w)"
  by (auto simp: normalize_missing_fields_def split: pyval.splits)

lemma normalize_missing_fields_fst:
  "fst (normalize_missing_fields v w) = fst (normalize_missing_fields v [])"
  by (simp add: normalize_missing_fields_def split: pyval.splits)

lemma normalize_missing_fields_absent:
  "fst (normalize_missing_fields (PList []) w) = fst (normalize_missing_fields PNone w')"
  by (simp add: normalize_missing_fields_def dedupe_def)

lemma has_key_dict_get: "\<not> has_key d k \<Longrightarrow> dict_get d k = PNone"
  by (simp add: has_key_def dict_get_def)

lemma normalize_output_consistency:
  fixes actual :: pydict and input_text :: string
  defines "mf \<equiv> fst (normalize_missing_fields (dict_get actual ''missing_fields'') [])"
  defines "nc \<equiv> normalize_bool (dict_get actual ''needs_clarification'')"
  defines "out \<equiv> fst (normalize_output actual input_text)"
  defines "ws \<equiv> snd (normalize_output actual input_text)"
  shows "dict_get out ''missing_fields'' = PList (map PStr mf)"
    and "dict_get out ''needs_clarification'' = PBool (nc \<or> mf \<noteq> [])"
    and "(''coerced_needs_clarification_true'' \<in> set ws) = (mf \<noteq> [] \<and> \<not> nc)"
    and "(''needs_clarification_without_missing_fields'' \<in> set ws) = (nc \<and> mf = [])"
proof -
  define e1 where "e1 = ensure_text_key actual ''category'' ''Software'' []"
  define e2 where "e2 = ensure_text_key (fst (snd e1)) ''priority'' ''P3'' (snd (snd e1))"
  define e3 where "e3 = ensure_text_key (fst (snd e2)) ''summary'' [] (snd (snd e2))"
  define nw4 where "nw4 = (if \<not> has_key (fst (snd e3)) ''needs_clarification''
               then (dict_set ''needs_clarification'' (PBool False) (fst (snd e3)),
                     snd (snd e3) @ [''defaulted_needs_clarification''])
               else (fst (snd e3), snd (snd e3)))"
  define nw5 where "nw5 = (if \<not> has_key (fst nw4) ''missing_fields''
               then (dict_set ''missing_fields'' (PList []) (fst nw4), snd nw4 @ [''defaulted_missing_fields''])
               else (fst nw4, snd nw4))"
  define c6 where "c6 = normalize_category (fst e1) (py_lower input_text) (snd nw5)"
  define n6 where "n6 = dict_set ''category'' (PStr (fst c6)) (fst nw5)"
  define p7 where "p7 = normalize_priority (fst e2) (snd c6)"
  define n7 where "n7 = dict_set ''priority'' (PStr (fst p7)) n6"
  define d8 where "d8 = normalize_device (dict_get n7 ''device'') (py_lower input_text) (snd p7)"
  define n8 where "n8 = dict_set ''device'' (PStr (fst d8)) n7"
  define n9 where "n9 = dict_set ''summary'' (PStr (py_strip (py_str (dict_get_default n8 ''summary'' (PStr []))))) n8"
  define m9 where "m9 = normalize_missing_fields (dict_get n9 ''missing_fields'') (snd d8)"
  define n10 where "n10 = dict_set ''missing_fields'' (PList (map PStr (fst m9))) n9"
  define b where "b = normalize_bool (dict_get n10 ''needs_clarification'')"
  define n11 where "n11 = dict_set ''needs_clarification'' (PBool b) n10"
  note st = normalize_output_steps [OF e1_def e2_def e3_def nw4_def nw5_def c6_def n6_def p7_def
      n7_def d8_def n8_def n9_def m9_def n10_def b_def n11_def]
  have g3: "dict_get (fst (snd e3)) k = dict_get actual k"
    if "k \<notin> {''category'', ''priority'', ''summary''}" for k
    using that by (simp add: e3_def e2_def e1_def ensure_text_key_dict dict_get_dict_set)
  have h3: "has_key (fst (snd e3)) k = has_key actual k"
    if "k \<notin> {''category'', ''priority'', ''summary''}" for k
    using that by (simp add: e3_def e2_def e1_def ensure_text_key_dict has_key_dict_set)
  have mf9: "fst m9 = mf"
  proof (cases "has_key actual ''missing_fields''")
    case True
    then have "dict_get n9 ''missing_fields'' = dict_get actual ''missing_fields''"
      by (simp add: n9_def n8_def n7_def n6_def nw5_def nw4_def dict_get_dict_set has_key_dict_set g3 h3)
    then show ?thesis
      by (simp add: m9_def mf_def normalize_missing_fields_fst [of _ "snd d8"])
  next
    case False
    then have "dict_get n9 ''missing_fields'' = PList []"
      by (simp add: n9_def n8_def n7_def n6_def nw5_def nw4_def dict_get_dict_set has_key_dict_set g3 h3)
    moreover from False have "dict_get actual ''missing_fields'' = PNone"
      by (rule has_key_dict_get)
    ultimately show ?thesis
      by (simp add: m9_def mf_def normalize_missing_fields_absent [of "snd d8" "[]"])
  qed
  have nc10: "b = nc"
  proof (cases "has_key actual ''needs_clarification''")
    case True
    then have "dict_get n10 ''needs_clarification'' = dict_get actual ''needs_clarification''"
      by (simp add: n10_def n9_def n8_def n7_def n6_def nw5_def nw4_def dict_get_dict_set
          has_key_dict_set g3 h3)
    then show ?thesis by (simp add: b_def nc_def)
  next
    case False
    then have "dict_get n10 ''needs_clarification'' = PBool False"
      by (simp add: n10_def n9_def n8_def n7_def n6_def nw5_def nw4_def dict_get_dict_set
          has_key_dict_set g3 h3)
    moreover from False have "dict_get actual ''needs_clarification'' = PNone"
      by (rule has_key_dict_get)
    ultimately show ?thesis
      by (simp add: b_def nc_def normalize_bool_def py_truth_def)
  qed
  show "dict_get out ''missing_fields'' = PList (map PStr mf)"
    by (simp add: out_def st n11_def n10_def dict_get_dict_set mf9)
  show "dict_get out ''needs_clarification'' = PBool (nc \<or> mf \<noteq> [])"
    by (auto simp add: out_def st n11_def dict_get_dict_set mf9 nc10)
  have base: "x \<in> {''coerced_needs_clarification_true'', ''needs_clarification_without_missing_fields''} \<Longrightarrow> x \<notin> set (snd m9)" for x
    by (simp add: m9_def d8_def p7_def c6_def nw5_def nw4_def e3_def e2_def e1_def
        normalize_missing_fields_warn normalize_device_warn normalize_priority_warn
        normalize_category_warn ensure_text_key_warn)
       (auto simp:)
  have b1: "''coerced_needs_clarification_true'' \<notin> set (snd m9)"
    by (rule base) (simp add:)
  have b2: "''needs_clarification_without_missing_fields'' \<notin> set (snd m9)"
    by (rule base) (simp add:)
  show "(''coerced_needs_clarification_true'' \<in> set ws) = (mf \<noteq> [] \<and> \<not> nc)"
    using b1 by (auto simp add: ws_def st set_dedupe mf9 nc10)
  show "(''needs_clarification_without_missing_fields'' \<in> set ws) = (nc \<and> mf = [])"
    using b2 by (auto simp add: ws_def st set_dedupe mf9 nc10)
qed

lemma strip_right_prefix: "\<exists>junk. a = rev (dropWhile P (rev a)) @ junk"
  by (metis rev_append rev_rev_ident takeWhile_dropWhile_id)

lemma py_strip_idem: "py_strip (py_strip s) = py_strip s"
proof -
  define a where "a = dropWhile is_space s"
  define t where "t = rev (dropWhile is_space (rev a))"
  have ts: "py_strip s = t" by (simp add: py_strip_def t_def a_def)
  have a_hd: "a = [] \<or> \<not> is_space (hd a)"
    unfolding a_def using hd_dropWhile [of is_space s] by blast
  obtain junk where aj: "a = t @ junk" unfolding t_def using strip_right_prefix by blast
  have t_hd: "t = [] \<or> \<not> is_space (hd t)"
  proof (cases "t = []")
    case False
    with aj have "hd a = hd t" by simp
    moreover from False aj have "a \<noteq> []" by simp
    ultimately show ?thesis using a_hd by simp
  qed simp
  then have d1: "dropWhile is_space t = t" by (cases t) auto
  have r_hd: "rev t = [] \<or> \<not> is_space (hd (rev t))"
    unfolding t_def using hd_dropWhile [of is_space "rev a"] by auto
  then have d2: "dropWhile is_space (rev t) = rev t" by (cases "rev t") auto
  have "py_strip t = t" by (simp add: py_strip_def d1 d2)
  with ts show ?thesis by simp
qed

lemma dict_set_same: "map_of d k = Some v \<Longrightarrow> dict_set k v d = d"
  by (induction d) (auto split: if_splits)

lemma dict_get_map_of: "map_of d k = Some v \<Longrightarrow> dict_get d k = v"
  by (simp add: dict_get_def)

lemma ensure_text_key_fixed:
  "map_of d k = Some (PStr s) \<Longrightarrow> py_strip s = s \<Longrightarrow> s \<noteq> [] \<Longrightarrow>
     ensure_text_key d k dflt w = (s, d, w)"
  by (simp add: ensure_text_key_def Let_def dict_get_def py_str_def dict_set_same)

lemma ensure_text_key_blank:
  "map_of d k = Some (PStr []) \<Longrightarrow>
     ensure_text_key d k [] w = ([], d, w @ [''defaulted_'' @ k])"
  by (simp add: ensure_text_key_def Let_def dict_get_def py_str_def dict_set_same py_strip_def)

lemma allowed_categories_closed:
  "list_all (\<lambda>c. py_strip c = c \<and> c \<noteq> []) ALLOWED_CATEGORIES"
  by code_simp

lemma allowed_priorities_closed:
  "list_all (\<lambda>p. py_upper (py_strip p) = p \<and> py_strip p = p \<and> p \<noteq> []) ALLOWED_PRIORITIES"
  by code_simp

lemma normalize_category_fixed:
  assumes "c \<in> set ALLOWED_CATEGORIES"
  shows "normalize_category c t w = (c, w)"
proof -
  from allowed_categories_closed
  have "\<forall>c\<in>set ALLOWED_CATEGORIES. py_strip c = c \<and> c \<noteq> []"
    by (simp only: list_all_iff)
  with assms have "py_strip c = c" by blast
  with assms show ?thesis by (simp add: normalize_category_def Let_def)
qed

lemma normalize_priority_fixed:
  assumes "p \<in> set ALLOWED_PRIORITIES"
  shows "normalize_priority p w = (p, w)"
proof -
  from allowed_priorities_closed
  have "\<forall>p\<in>set ALLOWED_PRIORITIES. py_upper (py_strip p) = p \<and> py_strip p = p \<and> p \<noteq> []"
    by (simp only: list_all_iff)
  with assms have "py_upper (py_strip p) = p" by blast
  with assms show ?thesis by (simp add: normalize_priority_def Let_def)
qed

lemma normalize_device_fixed:
  assumes "dv \<in> set ALLOWED_DEVICES"
  shows "normalize_device (PStr dv) t w = (dv, w)"
proof -
  have 1: "normalize_device (PStr ''Windows'') t w = (''Windows'', w)" by code_simp
  have 2: "normalize_device (PStr ''Mac'') t w = (''Mac'', w)" by code_simp
  have 3: "normalize_device (PStr ''iPhone'') t w = (''iPhone'', w)" by code_simp
  have 4: "normalize_device (PStr ''Android'') t w = (''Android'', w)" by code_simp
  have 5: "normalize_device (PStr ''Unknown'') t w = (''Unknown'', w)" by code_simp
  from assms have "dv = ''Windows'' \<or> dv = ''Mac'' \<or> dv = ''iPhone'' \<or> dv = ''Android'' \<or> dv = ''Unknown''"
    by (simp add: ALLOWED_DEVICES_def)
  with 1 2 3 4 5 show ?thesis by blast
qed

lemma dedupe_from_distinct:
  "distinct (dedupe_from seen xs) \<and> set (dedupe_from seen xs) \<inter> set seen = {}"
  by (induction xs arbitrary: seen) (auto simp: set_dedupe_from)

lemma distinct_dedupe: "distinct (dedupe xs)"
  using dedupe_from_distinct [of "[]" xs] by (simp add: dedupe_def)

lemma dedupe_from_id:
  "distinct xs \<Longrightarrow> set xs \<inter> set seen = {} \<Longrightarrow> dedupe_from seen xs = xs"
  by (induction xs arbitrary: seen) auto

lemma dedupe_id: "distinct xs \<Longrightarrow> dedupe xs = xs"
  by (simp add: dedupe_def dedupe_from_id)

lemma strip_items_elem:
  "x \<in> set (strip_items items) \<Longrightarrow> x \<noteq> [] \<and> py_strip x = x"
  by (induction items) (auto simp: Let_def py_strip_idem split: if_splits)

lemma strip_items_fixed:
  "\<forall>x\<in>set mf. x \<noteq> [] \<and> py_strip x = x \<Longrightarrow> strip_items (map PStr mf) = mf"
  by (induction mf) (simp_all add: Let_def py_str_def)

lemma category_synonyms_allowed:
  "list_all (\<lambda>entry. snd entry \<in> set ALLOWED_CATEGORIES) CATEGORY_SYNONYMS"
  by code_simp

lemma normalize_category_allowed:
  "fst (normalize_category c t w) \<in> set ALLOWED_CATEGORIES"
proof (cases "py_strip c \<in> set ALLOWED_CATEGORIES")
  case True
  then show ?thesis by (simp add: normalize_category_def Let_def)
next
  case False
  show ?thesis
  proof (cases "find (\<lambda>entry. contains (fst entry) (py_lower (py_strip c))) CATEGORY_SYNONYMS")
    case None
    with False show ?thesis
      by (simp add: normalize_category_def Let_def ALLOWED_CATEGORIES_def)
  next
    case (Some entry)
    from find_SomeD [OF Some] have "entry \<in> set CATEGORY_SYNONYMS" by simp
    with category_synonyms_allowed have "snd entry \<in> set ALLOWED_CATEGORIES"
      by (simp add: list_all_iff)
    with False Some show ?thesis by (simp add: normalize_category_def Let_def)
  qed
qed

lemma normalize_priority_allowed:
  "fst (normalize_priority p w) \<in> set ALLOWED_PRIORITIES"
proof -
  have "''P1'' \<in> set ALLOWED_PRIORITIES" "''P3'' \<in> set ALLOWED_PRIORITIES"
    "''P4'' \<in> set ALLOWED_PRIORITIES"
    by (simp_all add: ALLOWED_PRIORITIES_def)
  then show ?thesis by (simp add: normalize_priority_def Let_def)
qed

lemma infer_device_from_text_allowed:
  "infer_device_from_text t = Some d \<Longrightarrow> d \<in> set ALLOWED_DEVICES"
  by (auto simp: infer_device_from_text_def ALLOWED_DEVICES_def split: if_splits)

lemma normalize_device_allowed:
  "fst (normalize_device v t w) \<in> set ALLOWED_DEVICES"
proof -
  have k: "''Windows'' \<in> set ALLOWED_DEVICES" "''Mac'' \<in> set ALLOWED_DEVICES"
    "''iPhone'' \<in> set ALLOWED_DEVICES" "''Android'' \<in> set ALLOWED_DEVICES"
    "''Unknown'' \<in> set ALLOWED_DEVICES"
    by (simp_all add: ALLOWED_DEVICES_def)
  show ?thesis
    using k infer_device_from_text_allowed [of t]
    by (cases "infer_device_from_text t") (simp_all add: normalize_device_def Let_def)
qed

lemma normalize_missing_fields_normal:
  "(\<forall>x\<in>set (fst (normalize_missing_fields v w)). x \<noteq> [] \<and> py_strip x = x)
   \<and> distinct (fst (normalize_missing_fields v w))"
  by (cases v) (auto simp: normalize_missing_fields_def set_dedupe distinct_dedupe dest: strip_items_elem)

lemma normalize_missing_fields_fixed:
  "\<forall>x\<in>set mf. x \<noteq> [] \<and> py_strip x = x \<Longrightarrow> distinct mf \<Longrightarrow>
     normalize_missing_fields (PList (map PStr mf)) w = (mf, w)"
  by (simp add: normalize_missing_fields_def strip_items_fixed dedupe_id)

lemma normalize_output_second_pass:
  assumes cat: "map_of d ''category'' = Some (PStr c)" "c \<in> set ALLOWED_CATEGORIES"
    and pri: "map_of d ''priority'' = Some (PStr p)" "p \<in> set ALLOWED_PRIORITIES"
    and dev: "map_of d ''device'' = Some (PStr dv)" "dv \<in> set ALLOWED_DEVICES"
    and sm: "map_of d ''summary'' = Some (PStr s)" "py_strip s = s"
    and mfs: "map_of d ''missing_fields'' = Some (PList (map PStr mf))"
      "\<forall>x\<in>set mf. x \<noteq> [] \<and> py_strip x = x" "distinct mf"
    and ncl: "map_of d ''needs_clarification'' = Some (PBool b)" "mf \<noteq> [] \<longrightarrow> b"
  shows "normalize_output d t =
     (d, (if s = [] then [''defaulted_summary''] else [])
         @ (if b \<and> mf = [] then [''needs_clarification_without_missing_fields''] else []))"
proof -
  define w3 where "w3 = (if s = [] then [''defaulted_summary''] else [])"
  define e1 where "e1 = ensure_text_key d ''category'' ''Software'' []"
  define e2 where "e2 = ensure_text_key (fst (snd e1)) ''priority'' ''P3'' (snd (snd e1))"
  define e3 where "e3 = ensure_text_key (fst (snd e2)) ''summary'' [] (snd (snd e2))"
  define nw4 where "nw4 = (if \<not> has_key (fst (snd e3)) ''needs_clarification''
               then (dict_set ''needs_clarification'' (PBool False) (fst (snd e3)),
                     snd (snd e3) @ [''defaulted_needs_clarification''])
               else (fst (snd e3), snd (snd e3)))"
  define nw5 where "nw5 = (if \<not> has_key (fst nw4) ''missing_fields''
               then (dict_set ''missing_fields'' (PList []) (fst nw4), snd nw4 @ [''defaulted_missing_fields''])
               else (fst nw4, snd nw4))"
  define c6 where "c6 = normalize_category (fst e1) (py_lower t) (snd nw5)"
  define n6 where "n6 = dict_set ''category'' (PStr (fst c6)) (fst nw5)"
  define p7 where "p7 = normalize_priority (fst e2) (snd c6)"
  define n7 where "n7 = dict_set ''priority'' (PStr (fst p7)) n6"
  define d8 where "d8 = normalize_device (dict_get n7 ''device'') (py_lower t) (snd p7)"
  define n8 where "n8 = dict_set ''device'' (PStr (fst d8)) n7"
  define n9 where "n9 = dict_set ''summary'' (PStr (py_strip (py_str (dict_get_default n8 ''summary'' (PStr []))))) n8"
  define m9 where "m9 = normalize_missing_fields (dict_get n9 ''missing_fields'') (snd d8)"
  define n10 where "n10 = dict_set ''missing_fields'' (PList (map PStr (fst m9))) n9"
  define b' where "b' = normalize_bool (dict_get n10 ''needs_clarification'')"
  define n11 where "n11 = dict_set ''needs_clarification'' (PBool b') n10"
  note st = normalize_output_steps [OF e1_def e2_def e3_def nw4_def nw5_def c6_def n6_def p7_def
      n7_def d8_def n8_def n9_def m9_def n10_def b'_def n11_def]
  from allowed_categories_closed cat(2) have c_ok: "py_strip c = c" "c \<noteq> []"
    by (simp_all add: list_all_iff)
  from allowed_priorities_closed pri(2) have p_ok: "py_strip p = p" "p \<noteq> []"
    by (simp_all add: list_all_iff)
  have e1: "e1 = (c, d, [])"
    unfolding e1_def using cat(1) c_ok by (rule ensure_text_key_fixed)
  have e2: "e2 = (p, d, [])"
    unfolding e2_def e1 using pri(1) p_ok by (simp add: ensure_text_key_fixed)
  have e3: "e3 = (s, d, w3)"
  proof (cases "s = []")
    case True
    with sm(1) show ?thesis
      unfolding e3_def e2 w3_def by (simp add: ensure_text_key_blank)
  next
    case False
    with sm show ?thesis
      unfolding e3_def e2 w3_def by (simp add: ensure_text_key_fixed)
  qed
  have nw4: "nw4 = (d, w3)"
    unfolding nw4_def e3 using ncl(1) by (simp add: has_key_def)
  have nw5: "nw5 = (d, w3)"
    unfolding nw5_def nw4 using mfs(1) by (simp add: has_key_def)
  have c6: "c6 = (c, w3)"
    unfolding c6_def e1 nw5 using cat(2) by (simp add: normalize_category_fixed)
  have n6: "n6 = d"
    unfolding n6_def c6 nw5 using cat(1) by (simp add: dict_set_same)
  have p7: "p7 = (p, w3)"
    unfolding p7_def e2 c6 using pri(2) by (simp add: normalize_priority_fixed)
  have n7: "n7 = d"
    unfolding n7_def p7 n6 using pri(1) by (simp add: dict_set_same)
  have d8: "d8 = (dv, w3)"
    unfolding d8_def n7 p7 using dev by (simp add: dict_get_map_of normalize_device_fixed)
  have n8: "n8 = d"
    unfolding n8_def d8 n7 using dev(1) by (simp add: dict_set_same)
  have n9: "n9 = d"
    unfolding n9_def n8 using sm by (simp add: dict_get_default_def py_str_def dict_set_same)
  have m9: "m9 = (mf, w3)"
    unfolding m9_def n9 d8 using mfs by (simp add: dict_get_map_of normalize_missing_fields_fixed)
  have n10: "n10 = d"
    unfolding n10_def m9 n9 using mfs(1) by (simp add: dict_set_same)
  have b': "b' = b"
    unfolding b'_def n10 using ncl(1) by (simp add: dict_get_map_of normalize_bool_def)
  have n11: "n11 = d"
    unfolding n11_def b' n10 using ncl(1) by (simp add: dict_set_same)
  have dd: "dedupe (w3 @ (if b \<and> mf = [] then [''needs_clarification_without_missing_fields''] else []))
      = w3 @ (if b \<and> mf = [] then [''needs_clarification_without_missing_fields''] else [])"
    by (rule dedupe_id) (simp add: w3_def)
  show ?thesis
    unfolding st m9 n11 b' using ncl(2) dd by (auto simp: w3_def)
qed

lemma normalize_output_normal_form:
  fixes actual :: pydict and t :: string
  defines "out \<equiv> fst (normalize_output actual t)"
  obtains c p dv s mf b where
    "map_of out ''category'' = Some (PStr c)" "c \<in> set ALLOWED_CATEGORIES"
    "map_of out ''priority'' = Some (PStr p)" "p \<in> set ALLOWED_PRIORITIES"
    "map_of out ''device'' = Some (PStr dv)" "dv \<in> set ALLOWED_DEVICES"
    "map_of out ''summary'' = Some (PStr s)" "py_strip s = s"
    "map_of out ''missing_fields'' = Some (PList (map PStr mf))"
    "\<forall>x\<in>set mf. x \<noteq> [] \<and> py_strip x = x" "distinct mf"
    "map_of out ''needs_clarification'' = Some (PBool b)" "mf \<noteq> [] \<longrightarrow> b"
proof -
  define e1 where "e1 = ensure_text_key actual ''category'' ''Software'' []"
  define e2 where "e2 = ensure_text_key (fst (snd e1)) ''priority'' ''P3'' (snd (snd e1))"
  define e3 where "e3 = ensure_text_key (fst (snd e2)) ''summary'' [] (snd (snd e2))"
  define nw4 where "nw4 = (if \<not> has_key (fst (snd e3)) ''needs_clarification''
               then (dict_set ''needs_clarification'' (PBool False) (fst (snd e3)),
                     snd (snd e3) @ [''defaulted_needs_clarification''])
               else (fst (snd e3), snd (snd e3)))"
  define nw5 where "nw5 = (if \<not> has_key (fst nw4) ''missing_fields''
               then (dict_set ''missing_fields'' (PList []) (fst nw4), snd nw4 @ [''defaulted_missing_fields''])
               else (fst nw4, snd nw4))"
  define c6 where "c6 = normalize_category (fst e1) (py_lower t) (snd nw5)"
  define n6 where "n6 = dict_set ''category'' (PStr (fst c6)) (fst nw5)"
  define p7 where "p7 = normalize_priority (fst e2) (snd c6)"
  define n7 where "n7 = dict_set ''priority'' (PStr (fst p7)) n6"
  define d8 where "d8 = normalize_device (dict_get n7 ''device'') (py_lower t) (snd p7)"
  define n8 where "n8 = dict_set ''device'' (PStr (fst d8)) n7"
  define s where "s = py_strip (py_str (dict_get_default n8 ''summary'' (PStr [])))"
  define n9 where "n9 = dict_set ''summary'' (PStr s) n8"
  define m9 where "m9 = normalize_missing_fields (dict_get n9 ''missing_fields'') (snd d8)"
  define n10 where "n10 = dict_set ''missing_fields'' (PList (map PStr (fst m9))) n9"
  define b where "b = normalize_bool (dict_get n10 ''needs_clarification'')"
  define n11 where "n11 = dict_set ''needs_clarification'' (PBool b) n10"
  note st = normalize_output_steps [OF e1_def e2_def e3_def nw4_def nw5_def c6_def n6_def p7_def
      n7_def d8_def n8_def n9_def [unfolded s_def] m9_def n10_def b_def n11_def]
  have out: "out = (if fst m9 \<noteq> [] \<and> \<not> b then dict_set ''needs_clarification'' (PBool True) n11 else n11)"
    by (simp add: out_def st)
  have 1: "map_of out ''category'' = Some (PStr (fst c6))"
    by (simp add: out n11_def n10_def n9_def n8_def n7_def n6_def map_of_dict_set)
  have 2: "map_of out ''priority'' = Some (PStr (fst p7))"
    by (simp add: out n11_def n10_def n9_def n8_def n7_def map_of_dict_set)
  have 3: "map_of out ''device'' = Some (PStr (fst d8))"
    by (simp add: out n11_def n10_def n9_def n8_def map_of_dict_set)
  have 4: "map_of out ''summary'' = Some (PStr s)"
    by (simp add: out n11_def n10_def n9_def map_of_dict_set)
  have 5: "map_of out ''missing_fields'' = Some (PList (map PStr (fst m9)))"
    by (simp add: out n11_def n10_def map_of_dict_set)
  have 6: "map_of out ''needs_clarification'' = Some (PBool (b \<or> fst m9 \<noteq> []))"
    by (auto simp add: out n11_def map_of_dict_set)
  have 7: "fst c6 \<in> set ALLOWED_CATEGORIES"
    unfolding c6_def by (rule normalize_category_allowed)
  have 8: "fst p7 \<in> set ALLOWED_PRIORITIES"
    unfolding p7_def by (rule normalize_priority_allowed)
  have 9: "fst d8 \<in> set ALLOWED_DEVICES"
    unfolding d8_def by (rule normalize_device_allowed)
  have 10: "py_strip s = s"
    unfolding s_def by (rule py_strip_idem)
  have 11: "\<forall>x\<in>set (fst m9). x \<noteq> [] \<and> py_strip x = x" and 12: "distinct (fst m9)"
    unfolding m9_def using normalize_missing_fields_normal by blast+
  have 13: "fst m9 \<noteq> [] \<longrightarrow> (b \<or> fst m9 \<noteq> [])" by simp
  from 1 7 2 8 3 9 4 10 5 11 12 6 13 show ?thesis by (rule that)
qed




lemma py_lower_append: "py_lower (a @ b) = py_lower a @ py_lower b"
  by (simp add: py_lower_def)

lemma lost_phone_lower:
  "py_lower ''I lost my phone and it has company email on it.''
     = ''i lost my phone and it has company email on it.''"
  by code_simp

lemma lost_phone_open:
  "search True LOST_DEVICE_RE (''i lost my phone and it has company email on it. '' @ s)"
  by code_simp

lemma lost_phone_bitlocker:
  "search True BITLOCKER_RE ''i lost my phone and it has company email on it.'' = False"
  by code_simp

lemma lost_phone_hotspot:
  "search True HOTSPOT_HOME_WIFI_RE ''i lost my phone and it has company email on it.'' = False"
  by code_simp

lemma lost_phone_lost_device:
  "search True LOST_DEVICE_RE ''i lost my phone and it has company email on it.'' = True"
  by code_simp

lemma lost_phone_email:
  "contains ''email'' ''i lost my phone and it has company email on it.'' = True"
  by code_simp

lemma lost_phone_no_device_word:
  "search True DEVICE_EXPLICIT_RE ''i lost my phone and it has company email on it.'' = False"
  by code_simp

lemma lost_phone_security:
  "is_lost_device_security ''i lost my phone and it has company email on it.''"
  by (simp add: is_lost_device_security_def lost_phone_lost_device lost_phone_email)

lemma lost_phone_device:
  "infer_device hint ''I lost my phone and it has company email on it.'' = ''Unknown''"
  by (simp add: infer_device_def Let_def lost_phone_lower lost_phone_bitlocker lost_phone_hotspot
      lost_phone_security lost_phone_no_device_word)

lemma lost_phone_category:
  "infer_category signals ''I lost my phone and it has company email on it.'' = ''Security''"
  by (simp add: infer_category_def Let_def lost_phone_lower lost_phone_lost_device lost_phone_email)

lemma lost_phone_lower_open:
  "py_lower (''I lost my phone and it has company email on it.'' @ '' '' @ x)
     = ''i lost my phone and it has company email on it. '' @ py_lower x"
  by code_simp

lemma lost_phone_priority:
  "infer_priority signals ''I lost my phone and it has company email on it.'' = ''P1''"
proof -
  have eq: "py_lower (''I lost my phone and it has company email on it.'' @ '' ''
                     @ signal_text signals ''summary'')
      = ''i lost my phone and it has company email on it. '' @ py_lower (signal_text signals ''summary'')"
    by (rule lost_phone_lower_open)
  have "search True LOST_DEVICE_RE
          (py_lower (''I lost my phone and it has company email on it.'' @ '' ''
                     @ signal_text signals ''summary''))"
    unfolding eq by (rule lost_phone_open)
  then show ?thesis
    by (simp add: infer_priority_def Let_def lost_phone_category)
qed

lemma lost_phone_fields_unmapped:
  "list_all (\<lambda>f. map_of CANON_FIELD_MAP f = None)
     [''device_type'', ''phone_number_or_asset_id'', ''last_known_time'']"
  by code_simp

lemma lost_phone_canonical:
  assumes "\<not> strict \<or> set [''device_type'', ''phone_number_or_asset_id'', ''last_known_time'']
             \<subseteq> set (resolve_allowed_missing_fields dflt allowed)"
  shows "normalize_missing_fields_to_canonical dflt
           [''device_type'', ''phone_number_or_asset_id'', ''last_known_time''] allowed strict
         = [''device_type'', ''phone_number_or_asset_id'', ''last_known_time'']"
proof -
  define al where "al = resolve_allowed_missing_fields dflt allowed"
  have m: "map_to_canonical f al = (if f \<in> set al then Some f else None)"
    if "f \<in> set [''device_type'', ''phone_number_or_asset_id'', ''last_known_time'']" for f
    using that lost_phone_fields_unmapped by (auto simp: map_to_canonical_def)
  have d: "dedupe [''device_type'', ''phone_number_or_asset_id'', ''last_known_time'']
            = [''device_type'', ''phone_number_or_asset_id'', ''last_known_time'']"
    by code_simp
  have "canonical_loop al strict [''device_type'', ''phone_number_or_asset_id'', ''last_known_time'']
          = [''device_type'', ''phone_number_or_asset_id'', ''last_known_time'']"
    using assms unfolding al_def [symmetric] by (auto simp: m)
  then show ?thesis
    by (simp add: normalize_missing_fields_to_canonical_def al_def d)
qed

lemma lost_phone_missing_fields:
  assumes "\<not> strict \<or> set [''device_type'', ''phone_number_or_asset_id'', ''last_known_time'']
             \<subseteq> set (resolve_allowed_missing_fields dflt allowed)"
  shows "infer_missing_fields dflt signals ''I lost my phone and it has company email on it.'' allowed strict
         = [''device_type'', ''phone_number_or_asset_id'', ''last_known_time'']"
  using lost_phone_canonical [OF assms]
  by (simp add: infer_missing_fields_def Let_def lost_phone_category lost_phone_lower lost_phone_security)

lemma lost_phone_needs_clarification:
  "infer_needs_clarification signals ''I lost my phone and it has company email on it.''
     (Some [''device_type'', ''phone_number_or_asset_id'', ''last_known_time'']) (Some ''Security'')"
  by (simp add: infer_needs_clarification_def Let_def lost_phone_lower lost_phone_security)

subsection \<open>Extraction of the first balanced object\<close>











section \<open>Verified properties\<close>

text \<open>
  C1. Consistency law of the classification engine: whatever the signals, the text,
  the vocabulary and the strict flag, the output of \<open>build_output_from_signals\<close> has
  \<open>needs_clarification\<close> true exactly when its \<open>missing_fields\<close> list is not empty.
\<close>

theorem consistency_law:
  "case build_output_from_signals dflt signals input_text allowed strict of
     (out, warnings) \<Rightarrow>
       (\<exists>mf. dict_get out ''missing_fields'' = PList (map PStr mf)
             \<and> dict_get out ''needs_clarification'' = PBool (mf \<noteq> []))"
proof -
  define mf0 where "mf0 = infer_missing_fields dflt signals input_text allowed strict"
  define nc0 where "nc0 = infer_needs_clarification signals input_text (Some mf0)
                            (Some (infer_category signals input_text))"
  show ?thesis
    unfolding build_output_from_signals_def Let_def clamp_def dict_get_def
      mf0_def [symmetric] nc0_def [symmetric]
    by (cases "mf0 = []"; cases nc0) (auto split: prod.splits)
qed

text \<open>
  C7. Canonicalization closure: every name returned by
  \<open>normalize_missing_fields_to_canonical\<close> is in the allowed vocabulary, as an input
  field itself or as a synonym-table target of one, or, with strict mode off, is an
  input field left as it was; in strict mode the result stays inside the vocabulary and
  a field with no mapping is dropped.
\<close>

theorem canonicalization_closure:
  fixes dflt fields allowed_missing_fields strict
  defines "allowed \<equiv> resolve_allowed_missing_fields dflt allowed_missing_fields"
  defines "result \<equiv> normalize_missing_fields_to_canonical dflt fields allowed_missing_fields strict"
  shows "(\<forall>x \<in> set result.
            (x \<in> set allowed \<and>
               (x \<in> set fields \<or>
                (\<exists>f \<in> set fields. x \<in> set (case map_of CANON_FIELD_MAP f of None \<Rightarrow> [] | Some ts \<Rightarrow> ts))))
            \<or> (\<not> strict \<and> x \<in> set fields \<and> x \<notin> set allowed))
         \<and> (strict \<longrightarrow> set result \<subseteq> set allowed)
         \<and> (\<forall>f \<in> set fields. strict \<and> map_to_canonical f allowed = None \<longrightarrow> f \<notin> set result)"
proof -
  have elem: "x \<in> set result \<Longrightarrow>
     (\<exists>f \<in> set fields. map_to_canonical f allowed = Some x)
     \<or> (\<not> strict \<and> x \<in> set fields \<and> map_to_canonical x allowed = None)" for x
    using canonical_loop_elem [of x allowed strict "dedupe fields"]
    by (simp add: result_def allowed_def normalize_missing_fields_to_canonical_def set_dedupe)
  have a: "\<forall>x \<in> set result.
            (x \<in> set allowed \<and>
               (x \<in> set fields \<or>
                (\<exists>f \<in> set fields. x \<in> set (case map_of CANON_FIELD_MAP f of None \<Rightarrow> [] | Some ts \<Rightarrow> ts))))
            \<or> (\<not> strict \<and> x \<in> set fields \<and> x \<notin> set allowed)"
    using elem map_to_canonical_Some map_to_canonical_None by blast
  have b: "strict \<longrightarrow> set result \<subseteq> set allowed"
    using elem map_to_canonical_Some by blast
  have c: "\<forall>f \<in> set fields. strict \<and> map_to_canonical f allowed = None \<longrightarrow> f \<notin> set result"
    using b map_to_canonical_None by blast
  from a b c show ?thesis by blast
qed

theorem canonicalization_closure_witness:
  "normalize_missing_fields_to_canonical [] [''error_message'', ''bogus'', ''location'']
     (Some [''screenshot_or_error_code'', ''location'']) True
     = [''screenshot_or_error_code'', ''location'']
   \<and> set (normalize_missing_fields_to_canonical [] [''error_message'', ''bogus'', ''location'']
            (Some [''screenshot_or_error_code'', ''location'']) True)
       \<subseteq> set (resolve_allowed_missing_fields [] (Some [''screenshot_or_error_code'', ''location'']))
   \<and> ''bogus'' \<notin> set (normalize_missing_fields_to_canonical [] [''error_message'', ''bogus'', ''location'']
            (Some [''screenshot_or_error_code'', ''location'']) True)"
proof -
  have ev: "normalize_missing_fields_to_canonical [] [''error_message'', ''bogus'', ''location'']
     (Some [''screenshot_or_error_code'', ''location'']) True
     = [''screenshot_or_error_code'', ''location'']"
    by code_simp
  have un: "map_to_canonical ''bogus'' (resolve_allowed_missing_fields []
              (Some [''screenshot_or_error_code'', ''location''])) = None"
    by code_simp
  from canonicalization_closure [of "[]" "[''error_message'', ''bogus'', ''location'']"
      "Some [''screenshot_or_error_code'', ''location'']" True] ev un
  show ?thesis by simp
qed



text \<open>
  C10. On an empty sample list \<open>percentile\<close> returns 0 for every percentile. A summary
  of a run with no numeric latency, in the events and in the results, therefore
  reports p50 = p95 = 0, and the \<open>latency_p95_ms\<close> check of \<open>evaluate_gates\<close> passes
  against every positive ceiling.
\<close>

theorem empty_latency_percentile:
  "percentile [] p = Inr 0
   \<and> (latencies_of events = [] \<and> latencies_of results = []
        \<and> summarize_results results events = Inr sm
      \<longrightarrow> sm_latency_p50 sm = 0 \<and> sm_latency_p95 sm = 0
          \<and> check_name (gates_checks (evaluate_gates sm env_latency gates) ! 2) = ''latency_p95_ms''
          \<and> check_actual (gates_checks (evaluate_gates sm env_latency gates) ! 2) = 0
          \<and> (0 < latency_p95_ms_max (resolve_gate_limits sm env_latency gates)
               \<longrightarrow> check_passed (gates_checks (evaluate_gates sm env_latency gates) ! 2)))"
proof -
  have p: "percentile [] q = Inr 0" for q
    by (simp add: percentile_def)
  have s: "sm_latency_p50 sm = 0 \<and> sm_latency_p95 sm = 0"
    if "latencies_of events = []" "latencies_of results = []"
       "summarize_results results events = Inr sm"
    using that unfolding summarize_results_def Let_def
    by (auto simp: p split: sum.splits)
  show ?thesis
    using p s by (auto simp: evaluate_gates_def Let_def)
qed

theorem empty_latency_percentile_witness:
  "latencies_of [PDict [(''status'', PStr ''error'')]] = []
   \<and> latencies_of [PDict [(''schema_valid'', PBool True), (''provider'', PStr ''dummy'')]] = []
   \<and> summarize_results [PDict [(''schema_valid'', PBool True), (''provider'', PStr ''dummy'')]]
        [PDict [(''status'', PStr ''error'')]]
      = Inr \<lparr> sm_provider = ''dummy'', sm_schema_valid_rate = 1, sm_accuracy_category = 0,
               sm_latency_p50 = 0, sm_latency_p95 = 0 \<rparr>
   \<and> 0 < latency_p95_ms_max (resolve_gate_limits
            \<lparr> sm_provider = ''dummy'', sm_schema_valid_rate = 1, sm_accuracy_category = 0,
              sm_latency_p50 = 0, sm_latency_p95 = 0 \<rparr> None None)
   \<and> check_passed (gates_checks (evaluate_gates
            \<lparr> sm_provider = ''dummy'', sm_schema_valid_rate = 1, sm_accuracy_category = 0,
              sm_latency_p50 = 0, sm_latency_p95 = 0 \<rparr> None None) ! 2)"
proof -
  let ?results = "[PDict [(''schema_valid'', PBool True), (''provider'', PStr ''dummy'')]]"
  let ?events = "[PDict [(''status'', PStr ''error'')]]"
  let ?sm = "\<lparr> sm_provider = ''dummy'', sm_schema_valid_rate = 1, sm_accuracy_category = 0,
               sm_latency_p50 = 0, sm_latency_p95 = 0 \<rparr>"
  have a: "latencies_of ?events = []" by (simp add: dict_get_def)
  have b: "latencies_of ?results = []" by (simp add: dict_get_def)
  have c: "summarize_results ?results ?events = Inr ?sm"
    by (simp add: summarize_results_def rate_def dict_get_def py_truth_def percentile_def
        single_string_value_def dedupe_def Let_def)
  have d: "0 < latency_p95_ms_max (resolve_gate_limits ?sm None None)"
    by (simp add: resolve_gate_limits_def Let_def DEFAULT_latency_p95_ms_max_def
        OLLAMA_latency_p95_ms_max_def)
  from empty_latency_percentile [of 95 ?events ?results ?sm None None] a b c d
  show ?thesis by simp
qed

text \<open>
  C5. \<open>normalize_output\<close> enforces the consistency law in one direction only. With
  \<open>mf\<close> the normalized missing-field list of the candidate and \<open>nc\<close> its coerced
  \<open>needs_clarification\<close>: when \<open>mf\<close> is not empty and \<open>nc\<close> is false the output has
  \<open>needs_clarification\<close> true and the warning \<open>coerced_needs_clarification_true\<close>; when
  \<open>nc\<close> is true and \<open>mf\<close> is empty the output keeps true with an empty list, and of the
  two consistency warnings only \<open>needs_clarification_without_missing_fields\<close> is given.
  Each warning appears in no other case.
\<close>

theorem normalize_consistency_asymmetry:
  fixes candidate :: pydict and input_text :: string
  defines "mf \<equiv> fst (normalize_missing_fields (dict_get candidate ''missing_fields'') [])"
  defines "nc \<equiv> normalize_bool (dict_get candidate ''needs_clarification'')"
  defines "out \<equiv> fst (normalize_output candidate input_text)"
  defines "ws \<equiv> snd (normalize_output candidate input_text)"
  shows "dict_get out ''missing_fields'' = PList (map PStr mf)
    \<and> (mf \<noteq> [] \<and> \<not> nc \<longrightarrow>
          dict_get out ''needs_clarification'' = PBool True
          \<and> ''coerced_needs_clarification_true'' \<in> set ws)
    \<and> (nc \<and> mf = [] \<longrightarrow>
          dict_get out ''needs_clarification'' = PBool True
          \<and> dict_get out ''missing_fields'' = PList []
          \<and> ''needs_clarification_without_missing_fields'' \<in> set ws
          \<and> ''coerced_needs_clarification_true'' \<notin> set ws)
    \<and> ((''coerced_needs_clarification_true'' \<in> set ws) = (mf \<noteq> [] \<and> \<not> nc))
    \<and> ((''needs_clarification_without_missing_fields'' \<in> set ws) = (nc \<and> mf = []))"
  using normalize_output_consistency [of candidate input_text]
  unfolding mf_def nc_def out_def ws_def by auto

theorem normalize_consistency_asymmetry_witness:
  "normalize_output [(''needs_clarification'', PBool False), (''missing_fields'', PList [PStr ''location'']),
                     (''category'', PStr ''VPN''), (''priority'', PStr ''P2''),
                     (''device'', PStr ''Windows''), (''summary'', PStr ''VPN down'')] ''VPN down''
     = ([(''needs_clarification'', PBool True), (''missing_fields'', PList [PStr ''location'']),
         (''category'', PStr ''VPN''), (''priority'', PStr ''P2''),
         (''device'', PStr ''Windows''), (''summary'', PStr ''VPN down'')],
        [''coerced_needs_clarification_true''])
   \<and> normalize_output [(''needs_clarification'', PBool True), (''missing_fields'', PList []),
                     (''category'', PStr ''VPN''), (''priority'', PStr ''P2''),
                     (''device'', PStr ''Windows''), (''summary'', PStr ''VPN down'')] ''VPN down''
     = ([(''needs_clarification'', PBool True), (''missing_fields'', PList []),
         (''category'', PStr ''VPN''), (''priority'', PStr ''P2''),
         (''device'', PStr ''Windows''), (''summary'', PStr ''VPN down'')],
        [''needs_clarification_without_missing_fields''])"
proof -
  let ?a = "[(''needs_clarification'', PBool False), (''missing_fields'', PList [PStr ''location'']),
                     (''category'', PStr ''VPN''), (''priority'', PStr ''P2''),
                     (''device'', PStr ''Windows''), (''summary'', PStr ''VPN down'')]"
  let ?b = "[(''needs_clarification'', PBool True), (''missing_fields'', PList []),
                     (''category'', PStr ''VPN''), (''priority'', PStr ''P2''),
                     (''device'', PStr ''Windows''), (''summary'', PStr ''VPN down'')]"
  have a: "normalize_output ?a ''VPN down''
     = ([(''needs_clarification'', PBool True), (''missing_fields'', PList [PStr ''location'']),
         (''category'', PStr ''VPN''), (''priority'', PStr ''P2''),
         (''device'', PStr ''Windows''), (''summary'', PStr ''VPN down'')],
        [''coerced_needs_clarification_true''])"
    by code_simp
  have b: "normalize_output ?b ''VPN down''
     = ([(''needs_clarification'', PBool True), (''missing_fields'', PList []),
         (''category'', PStr ''VPN''), (''priority'', PStr ''P2''),
         (''device'', PStr ''Windows''), (''summary'', PStr ''VPN down'')],
        [''needs_clarification_without_missing_fields''])"
    by code_simp
  from normalize_consistency_asymmetry [of ?a "''VPN down''"]
       normalize_consistency_asymmetry [of ?b "''VPN down''"] a b
  show ?thesis by simp
qed

text \<open>
  C6. As the claim states it, a second normalization would give no warning. The
  output of normalizing the empty candidate has an empty summary, and normalizing it
  again warns \<open>defaulted_summary\<close>.
\<close>

theorem normalize_output_idempotent_counterexample:
  "normalize_output (fst (normalize_output [] [])) []
     = (fst (normalize_output [] []), [''defaulted_summary''])
   \<and> normalize_output (fst (normalize_output [] [])) [] \<noteq> (fst (normalize_output [] []), [])"
  by code_simp

text \<open>
  C6, amended. Normalizing the output of \<open>normalize_output\<close> again returns the same
  object, and its warnings are exactly \<open>defaulted_summary\<close> when the summary is empty
  followed by \<open>needs_clarification_without_missing_fields\<close> when \<open>needs_clarification\<close>
  is true with no missing field; so there is no warning when the summary is not empty
  and the clarification flag agrees with the list.
\<close>

theorem normalize_output_second_pass_warnings:
  "normalize_output (fst (normalize_output candidate input_text)) input_text =
     (fst (normalize_output candidate input_text),
      (if dict_get (fst (normalize_output candidate input_text)) ''summary'' = PStr []
       then [''defaulted_summary''] else [])
      @ (if dict_get (fst (normalize_output candidate input_text)) ''needs_clarification'' = PBool True
            \<and> dict_get (fst (normalize_output candidate input_text)) ''missing_fields'' = PList []
         then [''needs_clarification_without_missing_fields''] else []))"
proof -
  obtain c p dv s mf b where nf:
    "map_of (fst (normalize_output candidate input_text)) ''category'' = Some (PStr c)"
    "c \<in> set ALLOWED_CATEGORIES"
    "map_of (fst (normalize_output candidate input_text)) ''priority'' = Some (PStr p)"
    "p \<in> set ALLOWED_PRIORITIES"
    "map_of (fst (normalize_output candidate input_text)) ''device'' = Some (PStr dv)"
    "dv \<in> set ALLOWED_DEVICES"
    "map_of (fst (normalize_output candidate input_text)) ''summary'' = Some (PStr s)"
    "py_strip s = s"
    "map_of (fst (normalize_output candidate input_text)) ''missing_fields'' = Some (PList (map PStr mf))"
    "\<forall>x\<in>set mf. x \<noteq> [] \<and> py_strip x = x" "distinct mf"
    "map_of (fst (normalize_output candidate input_text)) ''needs_clarification'' = Some (PBool b)"
    "mf \<noteq> [] \<longrightarrow> b"
    by (rule normalize_output_normal_form)
  from normalize_output_second_pass [OF nf] nf(7,9,12)
  show ?thesis by (simp add: dict_get_def)
qed

theorem normalize_output_second_pass_warnings_witness:
  "normalize_output (fst (normalize_output
       [(''category'', PStr ''authentication''), (''priority'', PStr ''high''),
        (''device'', PStr ''iPhone 13''), (''missing_fields'', PList [PStr '' location '']),
        (''summary'', PStr '' cannot sign in '')] ''My phone''))
     ''My phone''
   = ([(''category'', PStr ''Access''), (''priority'', PStr ''P1''), (''device'', PStr ''iPhone''),
       (''missing_fields'', PList [PStr ''location'']), (''summary'', PStr ''cannot sign in''),
       (''needs_clarification'', PBool True)], [])"
proof -
  have o: "fst (normalize_output
       [(''category'', PStr ''authentication''), (''priority'', PStr ''high''),
        (''device'', PStr ''iPhone 13''), (''missing_fields'', PList [PStr '' location '']),
        (''summary'', PStr '' cannot sign in '')] ''My phone'')
     = [(''category'', PStr ''Access''), (''priority'', PStr ''P1''), (''device'', PStr ''iPhone''),
       (''missing_fields'', PList [PStr ''location'']), (''summary'', PStr ''cannot sign in''),
       (''needs_clarification'', PBool True)]"
    by code_simp
  from normalize_output_second_pass_warnings
    [of "[(''category'', PStr ''authentication''), (''priority'', PStr ''high''),
        (''device'', PStr ''iPhone 13''), (''missing_fields'', PList [PStr '' location '']),
        (''summary'', PStr '' cannot sign in '')]" "''My phone''"]
  show ?thesis unfolding o by (simp add: dict_get_def)
qed




text \<open>
  C4. \<open>parse_json_object_with_repair\<close> catches \<open>JSONDecodeError\<close> only. An exception
  of another kind raised by either call of the parser leaves the function, so it does
  raise on some texts. When no such exception occurs the result is as claimed:
  \<open>EmptyOutput\<close> for a blank text; the object, with success, when the trimmed text or
  the first balanced object substring parses as an object; \<open>ExtractionFailure\<close> when
  the text does not parse and holds no balanced object; \<open>InvalidJSON\<close> when the
  substring does not parse or a parsed value is not an object.
\<close>

theorem parse_with_repair_raises:
  fixes loads :: "string \<Rightarrow> loads_result" and input :: string
  defines "raw \<equiv> py_strip input"
  defines "result \<equiv> parse_json_object_with_repair loads input"
  shows
   "(\<forall>e. raw \<noteq> [] \<and> loads raw = Raised e \<longrightarrow> result = Inl e)
    \<and> (\<forall>c e. raw \<noteq> [] \<and> loads raw = JSONDecodeError \<and> extract_first_json_object raw = Some c
            \<and> loads c = Raised e \<longrightarrow> result = Inl e)
    \<and> (raw = [] \<longrightarrow> result = Inr (None, False, ''EmptyOutput''))
    \<and> (\<forall>d. raw \<noteq> [] \<and> loads raw = Parsed (PDict d) \<longrightarrow> result = Inr (Some (PDict d), True, []))
    \<and> (\<forall>c d. raw \<noteq> [] \<and> loads raw = JSONDecodeError \<and> extract_first_json_object raw = Some c
            \<and> loads c = Parsed (PDict d) \<longrightarrow> result = Inr (Some (PDict d), True, []))
    \<and> (raw \<noteq> [] \<and> loads raw = JSONDecodeError \<and> extract_first_json_object raw = None
         \<longrightarrow> result = Inr (None, False, ''ExtractionFailure''))
    \<and> (\<forall>c. raw \<noteq> [] \<and> loads raw = JSONDecodeError \<and> extract_first_json_object raw = Some c
            \<and> loads c = JSONDecodeError
         \<longrightarrow> result = Inr (None, False, ''InvalidJSON''))
    \<and> (\<forall>v. raw \<noteq> [] \<and> loads raw = Parsed v \<and> (\<forall>d. v \<noteq> PDict d)
         \<longrightarrow> result = Inr (None, False, ''InvalidJSON''))
    \<and> (\<forall>c v. raw \<noteq> [] \<and> loads raw = JSONDecodeError \<and> extract_first_json_object raw = Some c
            \<and> loads c = Parsed v \<and> (\<forall>d. v \<noteq> PDict d)
         \<longrightarrow> result = Inr (None, False, ''InvalidJSON''))
    \<and> (\<forall>obj ok kind. result = Inr (obj, ok, kind) \<longrightarrow>
          (ok = (\<exists>d. obj = Some (PDict d))) \<and> (ok \<longrightarrow> kind = [])
          \<and> (\<not> ok \<longrightarrow> obj = None
                \<and> kind \<in> {''EmptyOutput'', ''ExtractionFailure'', ''InvalidJSON''}))"
  unfolding raw_def result_def parse_json_object_with_repair_def Let_def
  by (auto split: option.splits pyval.splits loads_result.splits)

theorem parse_with_repair_raises_witness:
  "parse_json_object_with_repair
     (\<lambda>s. if s = ''{}'' then Parsed (PDict []) else if s = ''[[[['' then Raised RecursionError
           else if s = ''{9}'' then Raised ValueError else JSONDecodeError) '' [[[[ ''
     = Inl RecursionError
   \<and> parse_json_object_with_repair
     (\<lambda>s. if s = ''{}'' then Parsed (PDict []) else if s = ''[[[['' then Raised RecursionError
           else if s = ''{9}'' then Raised ValueError else JSONDecodeError) ''a {9} b''
     = Inl ValueError
   \<and> parse_json_object_with_repair
     (\<lambda>s. if s = ''{}'' then Parsed (PDict []) else if s = ''[[[['' then Raised RecursionError
           else if s = ''{9}'' then Raised ValueError else JSONDecodeError) ''ok: {} done''
     = Inr (Some (PDict []), True, [])"
proof -
  let ?l = "\<lambda>s. if s = ''{}'' then Parsed (PDict []) else if s = ''[[[['' then Raised RecursionError
           else if s = ''{9}'' then Raised ValueError else JSONDecodeError"
  have s1: "py_strip '' [[[[ '' = ''[[[[''" by code_simp
  have s2: "py_strip ''a {9} b'' = ''a {9} b''" by code_simp
  have s3: "py_strip ''ok: {} done'' = ''ok: {} done''" by code_simp
  have e2: "extract_first_json_object ''a {9} b'' = Some ''{9}''" by code_simp
  have e3: "extract_first_json_object ''ok: {} done'' = Some ''{}''" by code_simp
  from parse_with_repair_raises [of "'' [[[[ ''" ?l] s1
  have r1: "parse_json_object_with_repair ?l '' [[[[ '' = Inl RecursionError" by simp
  from parse_with_repair_raises [of "''a {9} b''" ?l] s2 e2
  have r2: "parse_json_object_with_repair ?l ''a {9} b'' = Inl ValueError" by simp
  from parse_with_repair_raises [of "''ok: {} done''" ?l] s3 e3
  have r3: "parse_json_object_with_repair ?l ''ok: {} done'' = Inr (Some (PDict []), True, [])" by simp
  from r1 r2 r3 show ?thesis by blast
qed

text \<open>
  C8. Lost-phone scenario: for the text "I lost my phone and it has company email on
  it." and every signals value returned by \<open>coerce_ticket_signals\<close>, the classification
  engine gives category Security, priority P1, device Unknown, the three missing fields
  device_type, phone_number_or_asset_id, last_known_time in this order, and
  needs_clarification true, provided strict mode is off or the three names are in the
  vocabulary in use.
\<close>

theorem lost_phone_scenario:
  assumes "coerce_ticket_signals payload = Inr signals"
    and "\<not> strict \<or> set [''device_type'', ''phone_number_or_asset_id'', ''last_known_time'']
             \<subseteq> set (resolve_allowed_missing_fields dflt allowed)"
  shows "dict_get (fst (build_output_from_signals dflt signals
                          ''I lost my phone and it has company email on it.'' allowed strict))
           ''category'' = PStr ''Security''
    \<and> dict_get (fst (build_output_from_signals dflt signals
                          ''I lost my phone and it has company email on it.'' allowed strict))
           ''priority'' = PStr ''P1''
    \<and> dict_get (fst (build_output_from_signals dflt signals
                          ''I lost my phone and it has company email on it.'' allowed strict))
           ''device'' = PStr ''Unknown''
    \<and> dict_get (fst (build_output_from_signals dflt signals
                          ''I lost my phone and it has company email on it.'' allowed strict))
           ''missing_fields''
        = PList [PStr ''device_type'', PStr ''phone_number_or_asset_id'', PStr ''last_known_time'']
    \<and> dict_get (fst (build_output_from_signals dflt signals
                          ''I lost my phone and it has company email on it.'' allowed strict))
           ''needs_clarification'' = PBool True"
proof -
  have c: "''Security'' \<in> set ALLOWED_CATEGORIES" by (simp add: ALLOWED_CATEGORIES_def)
  have p: "''P1'' \<in> set ALLOWED_PRIORITIES" by (simp add: ALLOWED_PRIORITIES_def)
  have d: "''Unknown'' \<in> set ALLOWED_DEVICES" by (simp add: ALLOWED_DEVICES_def)
  show ?thesis
    by (simp add: build_output_from_signals_def Let_def clamp_def split_beta dict_get_def
        lost_phone_device lost_phone_category lost_phone_priority
        lost_phone_missing_fields [OF assms(2)] lost_phone_needs_clarification c p d)
qed

theorem lost_phone_scenario_witness:
  "coerce_ticket_signals [(''device_hint'', PStr ''iPhone''), (''mentions_email'', PStr ''yes'')]
     = Inr [(''device_hint'', PStr ''iphone''),
      (''mentions_vpn'', PBool False), (''mentions_email'', PBool True),
      (''mentions_wifi_or_network'', PBool False), (''mentions_printer'', PBool False),
      (''mentions_software_app'', PBool False), (''mentions_laptop_issue'', PBool False),
      (''access_request'', PBool False), (''security_incident'', PBool False),
      (''scope'', PStr ''unknown''), (''error_codes'', PList []),
      (''urgency_words'', PBool False), (''summary'', PStr [])]
   \<and> set [''device_type'', ''phone_number_or_asset_id'', ''last_known_time'']
     \<subseteq> set (resolve_allowed_missing_fields [] (Some [''last_known_time'', ''device_type'', ''phone_number_or_asset_id'']))
   \<and> dict_get (fst (build_output_from_signals []
        [(''device_hint'', PStr ''iphone''),
      (''mentions_vpn'', PBool False), (''mentions_email'', PBool True),
      (''mentions_wifi_or_network'', PBool False), (''mentions_printer'', PBool False),
      (''mentions_software_app'', PBool False), (''mentions_laptop_issue'', PBool False),
      (''access_request'', PBool False), (''security_incident'', PBool False),
      (''scope'', PStr ''unknown''), (''error_codes'', PList []),
      (''urgency_words'', PBool False), (''summary'', PStr [])]
        ''I lost my phone and it has company email on it.''
        (Some [''last_known_time'', ''device_type'', ''phone_number_or_asset_id'']) True)) ''category'' = PStr ''Security''
   \<and> dict_get (fst (build_output_from_signals []
        [(''device_hint'', PStr ''iphone''),
      (''mentions_vpn'', PBool False), (''mentions_email'', PBool True),
      (''mentions_wifi_or_network'', PBool False), (''mentions_printer'', PBool False),
      (''mentions_software_app'', PBool False), (''mentions_laptop_issue'', PBool False),
      (''access_request'', PBool False), (''security_incident'', PBool False),
      (''scope'', PStr ''unknown''), (''error_codes'', PList []),
      (''urgency_words'', PBool False), (''summary'', PStr [])]
        ''I lost my phone and it has company email on it.''
        (Some [''last_known_time'', ''device_type'', ''phone_number_or_asset_id'']) True)) ''priority'' = PStr ''P1''
   \<and> dict_get (fst (build_output_from_signals []
        [(''device_hint'', PStr ''iphone''),
      (''mentions_vpn'', PBool False), (''mentions_email'', PBool True),
      (''mentions_wifi_or_network'', PBool False), (''mentions_printer'', PBool False),
      (''mentions_software_app'', PBool False), (''mentions_laptop_issue'', PBool False),
      (''access_request'', PBool False), (''security_incident'', PBool False),
      (''scope'', PStr ''unknown''), (''error_codes'', PList []),
      (''urgency_words'', PBool False), (''summary'', PStr [])]
        ''I lost my phone and it has company email on it.''
        (Some [''last_known_time'', ''device_type'', ''phone_number_or_asset_id'']) True)) ''device'' = PStr ''Unknown''
   \<and> dict_get (fst (build_output_from_signals []
        [(''device_hint'', PStr ''iphone''),
      (''mentions_vpn'', PBool False), (''mentions_email'', PBool True),
      (''mentions_wifi_or_network'', PBool False), (''mentions_printer'', PBool False),
      (''mentions_software_app'', PBool False), (''mentions_laptop_issue'', PBool False),
      (''access_request'', PBool False), (''security_incident'', PBool False),
      (''scope'', PStr ''unknown''), (''error_codes'', PList []),
      (''urgency_words'', PBool False), (''summary'', PStr [])]
        ''I lost my phone and it has company email on it.''
        (Some [''last_known_time'', ''device_type'', ''phone_number_or_asset_id'']) True)) ''missing_fields''
        = PList [PStr ''device_type'', PStr ''phone_number_or_asset_id'', PStr ''last_known_time'']
   \<and> dict_get (fst (build_output_from_signals []
        [(''device_hint'', PStr ''iphone''),
      (''mentions_vpn'', PBool False), (''mentions_email'', PBool True),
      (''mentions_wifi_or_network'', PBool False), (''mentions_printer'', PBool False),
      (''mentions_software_app'', PBool False), (''mentions_laptop_issue'', PBool False),
      (''access_request'', PBool False), (''security_incident'', PBool False),
      (''scope'', PStr ''unknown''), (''error_codes'', PList []),
      (''urgency_words'', PBool False), (''summary'', PStr [])]
        ''I lost my phone and it has company email on it.''
        (Some [''last_known_time'', ''device_type'', ''phone_number_or_asset_id'']) True)) ''needs_clarification'' = PBool True"
proof -
  have co: "coerce_ticket_signals [(''device_hint'', PStr ''iPhone''), (''mentions_email'', PStr ''yes'')]
     = Inr [(''device_hint'', PStr ''iphone''),
      (''mentions_vpn'', PBool False), (''mentions_email'', PBool True),
      (''mentions_wifi_or_network'', PBool False), (''mentions_printer'', PBool False),
      (''mentions_software_app'', PBool False), (''mentions_laptop_issue'', PBool False),
      (''access_request'', PBool False), (''security_incident'', PBool False),
      (''scope'', PStr ''unknown''), (''error_codes'', PList []),
      (''urgency_words'', PBool False), (''summary'', PStr [])]"
    by code_simp
  have sub: "set [''device_type'', ''phone_number_or_asset_id'', ''last_known_time'']
     \<subseteq> set (resolve_allowed_missing_fields [] (Some [''last_known_time'', ''device_type'', ''phone_number_or_asset_id'']))"
    by (simp add: resolve_allowed_missing_fields_def)
  then have h: "\<not> True \<or> set [''device_type'', ''phone_number_or_asset_id'', ''last_known_time'']
     \<subseteq> set (resolve_allowed_missing_fields [] (Some [''last_known_time'', ''device_type'', ''phone_number_or_asset_id'']))"
    by (rule disjI2)
  from co sub lost_phone_scenario [OF co h] show ?thesis by blast
qed



end
